theory Spec2Isabelle
  imports Main "HOL-Library.Word" "HOL-Library.Signed_Division"
begin

unbundle bit_operations_syntax

section \<open>Geometry, sentinels and structures\<close>

type_synonym u8 = "8 word"
type_synonym u16 = "16 word"
type_synonym u32 = "32 word"

text \<open>
  Modelled from the spec: the header \<^verbatim>\<open>header/filesystem/fat32.h\<close> (the geometry macros, the
  sentinel values and the struct declarations) is not among the sources. The spec fixes a
  512-byte block, a cluster-count cap of 63 for a block-count cap of 255 (four blocks per
  cluster), a file-allocation table of 32-bit entries that fills the cluster numbered 1
  (512 entries), the root directory in cluster 2 and the boot signature in block 0.
\<close>

definition BLOCK_SIZE :: nat where
  "BLOCK_SIZE = 512"

definition CLUSTER_BLOCK_COUNT :: nat where
  "CLUSTER_BLOCK_COUNT = 4"

definition CLUSTER_SIZE :: nat where
  "CLUSTER_SIZE = BLOCK_SIZE * CLUSTER_BLOCK_COUNT"

definition CLUSTER_MAP_SIZE :: nat where
  "CLUSTER_MAP_SIZE = 512"

definition BOOT_SECTOR :: nat where
  "BOOT_SECTOR = 0"

definition FAT_CLUSTER_NUMBER :: u32 where
  "FAT_CLUSTER_NUMBER = 1"

definition ROOT_CLUSTER_NUMBER :: u32 where
  "ROOT_CLUSTER_NUMBER = 2"

text \<open>
  Modelled from the spec: the sentinel values of the absent header. The spec names them
  (\<open>Reserved\<close> for clusters 0 and 1, \<open>Free\<close>, \<open>EndOfChain\<close>, the \<open>SUBDIRECTORY\<close> marker, the
  occupancy flag); the numbers are those of the FAT32 on-disk format. The general theorems
  below use no more of them than that \<open>Free\<close> and \<open>EndOfChain\<close> differ and that
  \<open>EndOfChain\<close> is no index of the table.
\<close>

definition CLUSTER_0_VALUE :: u32 where
  "CLUSTER_0_VALUE = 0x0FFFFFF0"

definition CLUSTER_1_VALUE :: u32 where
  "CLUSTER_1_VALUE = 0x0FFFFFFF"

definition FAT32_FAT_END_OF_FILE :: u32 where
  "FAT32_FAT_END_OF_FILE = 0x0FFFFFFF"

definition FAT32_FAT_EMPTY_ENTRY :: u32 where
  "FAT32_FAT_EMPTY_ENTRY = 0"

definition ATTR_SUBDIRECTORY :: u8 where
  "ATTR_SUBDIRECTORY = 0x10"

definition UATTR_NOT_EMPTY :: u8 where
  "UATTR_NOT_EMPTY = 0xAA"

text \<open>
  Modelled from the spec: \<^verbatim>\<open>struct FAT32DirectoryEntry\<close> of the absent header, with the fields
  the source reads and writes (8-byte name, 3-byte extension, attribute, occupancy flag,
  the starting cluster as two 16-bit halves, the file size).
\<close>

record FAT32DirectoryEntry =
  name :: "u8 list"
  ext :: "u8 list"
  attribute :: u8
  user_attribute :: u8
  cluster_high :: u16
  cluster_low :: u16
  filesize :: u32

text \<open>
  Modelled from the spec: a directory table is exactly the entries that fit in one cluster;
  with the 32-byte entry of the on-disk format that is 64 slots. The source computes the
  number as \<^verbatim>\<open>sizeof(struct FAT32DirectoryTable) / sizeof(struct FAT32DirectoryEntry)\<close>, so
  it is also the length of the array \<^verbatim>\<open>table\<close>: the valid slot indices are \<open>0..63\<close>.
\<close>

definition directory_size :: nat where
  "directory_size = 64"

text \<open>\<^verbatim>\<open>= { 0 }\<close>: an entry with every byte zero.\<close>

definition zero_entry :: FAT32DirectoryEntry where
  "zero_entry = \<lparr>name = replicate 8 0, ext = replicate 3 0, attribute = 0,
     user_attribute = 0, cluster_high = 0, cluster_low = 0, filesize = 0\<rparr>"

definition zero_table :: "FAT32DirectoryEntry list" where
  "zero_table = replicate directory_size zero_entry"

text \<open>
  Modelled from the spec: \<^verbatim>\<open>struct FAT32DriverRequest\<close> of the absent header. \<open>buf\<close> is the
  memory the pointer \<^verbatim>\<open>request.buf\<close> addresses, byte by byte from offset 0 (the source
  reads whole clusters from it, whatever \<open>buffer_size\<close> says). The name and extension
  fields are called \<open>req_name\<close> and \<open>req_ext\<close> here, apart from the entry's fields. The
  cluster number and the size are \<^verbatim>\<open>uint32_t\<close>, as the entry's \<open>filesize\<close> that the size is
  stored into and compared with.
\<close>

record FAT32DriverRequest =
  buf :: "nat \<Rightarrow> u8"
  req_name :: "u8 list"
  req_ext :: "u8 list"
  parent_cluster_number :: u32
  buffer_size :: u32

section \<open>The block device\<close>

text \<open>
  Modelled from the spec: the block device and its two calls \<^verbatim>\<open>read_blocks(dst, lba, count)\<close>
  and \<^verbatim>\<open>write_blocks(src, lba, count)\<close> are not among the sources. The device maps a logical
  block address to a block; a call moves \<open>count\<close> consecutive blocks. The layout of the
  structs in bytes belongs to the absent header, so a block keeps the structure that was
  written into it: 512 raw bytes, sixteen directory entries, or 128 entries of the allocation
  table. A block whose bytes are all zero reads as any of the three, with every field zero,
  whatever the layout. Reading any other block as another structure than it holds is the
  fault \<open>Reinterpret\<close>; indexing the cached allocation table outside
  \<open>0..CLUSTER_MAP_SIZE - 1\<close> is the fault \<open>OutOfBounds\<close>. In both cases the C program goes on
  with bytes this model does not know.
\<close>

datatype block =
  ByteBlock "u8 list"
  | EntryBlock "FAT32DirectoryEntry list"
  | LinkBlock "u32 list"

datatype fault = OutOfBounds | Reinterpret

type_synonym disk = "nat \<Rightarrow> block"

definition read_blocks :: "disk \<Rightarrow> nat \<Rightarrow> nat \<Rightarrow> block list" where
  "read_blocks d lba block_count = map d [lba ..< lba + block_count]"

definition write_blocks :: "disk \<Rightarrow> block list \<Rightarrow> nat \<Rightarrow> nat \<Rightarrow> disk" where
  "write_blocks d src lba block_count =
     (\<lambda>a. if lba \<le> a \<and> a < lba + block_count then src ! (a - lba) else d a)"

text \<open>\<^verbatim>\<open>cluster * CLUSTER_BLOCK_COUNT\<close> on \<^verbatim>\<open>uint32_t\<close>: the product wraps.\<close>

definition cluster_to_lba :: "u32 \<Rightarrow> nat" where
  "cluster_to_lba cluster = unat (cluster * of_nat CLUSTER_BLOCK_COUNT)"

definition write_clusters :: "disk \<Rightarrow> block list \<Rightarrow> u32 \<Rightarrow> nat \<Rightarrow> disk" where
  "write_clusters d src cluster_number cluster_count =
     write_blocks d src (cluster_to_lba cluster_number) (cluster_count * CLUSTER_BLOCK_COUNT)"

definition read_clusters :: "disk \<Rightarrow> u32 \<Rightarrow> nat \<Rightarrow> block list" where
  "read_clusters d cluster_number cluster_count =
     read_blocks d (cluster_to_lba cluster_number) (cluster_count * CLUSTER_BLOCK_COUNT)"

subsection \<open>Structures as blocks\<close>

definition chunk :: "nat \<Rightarrow> nat \<Rightarrow> 'a list \<Rightarrow> 'a list list" where
  "chunk n k xs = map (\<lambda>i. take n (drop (i * n) xs)) [0 ..< k]"

definition ENTRIES_PER_BLOCK :: nat where
  "ENTRIES_PER_BLOCK = directory_size div CLUSTER_BLOCK_COUNT"

definition LINKS_PER_BLOCK :: nat where
  "LINKS_PER_BLOCK = CLUSTER_MAP_SIZE div CLUSTER_BLOCK_COUNT"

text \<open>The memory of a \<^verbatim>\<open>struct FAT32DirectoryTable\<close>, block by block.\<close>

definition table_blocks :: "FAT32DirectoryEntry list \<Rightarrow> block list" where
  "table_blocks t = map EntryBlock (chunk ENTRIES_PER_BLOCK CLUSTER_BLOCK_COUNT t)"

text \<open>The memory of the \<^verbatim>\<open>struct FAT32FileAllocationTable\<close>, block by block.\<close>

definition fat_blocks :: "u32 list \<Rightarrow> block list" where
  "fat_blocks f = map LinkBlock (chunk LINKS_PER_BLOCK CLUSTER_BLOCK_COUNT f)"

text \<open>The cluster-sized piece of memory at \<^verbatim>\<open>request.buf + i * CLUSTER_SIZE\<close>.\<close>

definition bytes_at :: "(nat \<Rightarrow> u8) \<Rightarrow> nat \<Rightarrow> nat \<Rightarrow> u8 list" where
  "bytes_at m off n = map m [off ..< off + n]"

definition buf_blocks :: "(nat \<Rightarrow> u8) \<Rightarrow> nat \<Rightarrow> block list" where
  "buf_blocks m i =
     map (\<lambda>j. ByteBlock (bytes_at m (i * CLUSTER_SIZE + j * BLOCK_SIZE) BLOCK_SIZE))
       [0 ..< CLUSTER_BLOCK_COUNT]"

text \<open>A block of the device whose bytes are all zero.\<close>

fun zero_block :: "block \<Rightarrow> bool" where
  "zero_block (ByteBlock bs) = (length bs = BLOCK_SIZE \<and> list_all (\<lambda>b. b = 0) bs)"
| "zero_block (EntryBlock es) =
     (length es = ENTRIES_PER_BLOCK \<and> list_all (\<lambda>e. e = zero_entry) es)"
| "zero_block (LinkBlock ls) = (length ls = LINKS_PER_BLOCK \<and> list_all (\<lambda>l. l = 0) ls)"

text \<open>
  The blocks that read as sixteen directory entries: those written as such, and the blocks of
  zero bytes, which read as sixteen zero entries.
\<close>

fun is_entry_block :: "block \<Rightarrow> bool" where
  "is_entry_block (EntryBlock es) = (length es = ENTRIES_PER_BLOCK)"
| "is_entry_block b = zero_block b"

fun block_entries :: "block \<Rightarrow> FAT32DirectoryEntry list" where
  "block_entries (EntryBlock es) = es"
| "block_entries b = replicate ENTRIES_PER_BLOCK zero_entry"

text \<open>
  The blocks that read as 128 entries of the allocation table: those written as such, and
  the blocks of zero bytes, which read as 128 zero entries.
\<close>

fun is_link_block :: "block \<Rightarrow> bool" where
  "is_link_block (LinkBlock ls) = (length ls = LINKS_PER_BLOCK)"
| "is_link_block b = zero_block b"

fun block_links :: "block \<Rightarrow> u32 list" where
  "block_links (LinkBlock ls) = ls"
| "block_links b = replicate LINKS_PER_BLOCK 0"

text \<open>Blocks read into a \<^verbatim>\<open>struct FAT32DirectoryTable\<close>.\<close>

definition as_table :: "block list \<Rightarrow> fault + FAT32DirectoryEntry list" where
  "as_table bs =
     (if list_all is_entry_block bs then Inr (concat (map block_entries bs))
      else Inl Reinterpret)"

text \<open>Blocks read into the \<^verbatim>\<open>struct FAT32FileAllocationTable\<close>.\<close>

definition as_fat :: "block list \<Rightarrow> fault + u32 list" where
  "as_fat bs =
     (if list_all is_link_block bs then Inr (concat (map block_links bs))
      else Inl Reinterpret)"

section \<open>The driver state\<close>

text \<open>
  Modelled from the spec: \<^verbatim>\<open>struct FAT32DriverState\<close> of the absent header, with the two
  members the source uses (the cached allocation table and the scratch directory table),
  together with the device. \<open>overrun\<close> is the memory right behind the 64 slots of
  \<open>dir_table_buf\<close>, where a store to \<^verbatim>\<open>table[directory_size]\<close> lands: \<open>None\<close> as long as
  nothing was stored there. The model takes that memory to be neither the cached allocation
  table nor a slot of the table; it is not part of the cluster that
  \<^verbatim>\<open>write_clusters(&driver_state.dir_table_buf, ..., 1)\<close> writes.
\<close>

record fs =
  fat_table :: "u32 list"
  dir_table_buf :: "FAT32DirectoryEntry list"
  overrun :: "FAT32DirectoryEntry option"
  storage :: disk

section \<open>Bootstrap\<close>

text \<open>
  \<^verbatim>\<open>const uint8_t fs_signature[BLOCK_SIZE]\<close>: the banner of 80 bytes, zero bytes, and
  \<^verbatim>\<open>'O'\<close>, \<^verbatim>\<open>'k'\<close> in the last two bytes of the block.
\<close>

definition fs_signature :: "u8 list" where
  "fs_signature =
     map of_char ''Course          '' @
     map of_char ''Designed by     '' @
     map of_char ''Lab Sister ITB  '' @
     map of_char ''Made with <3    '' @
     map of_char ''-----------2024'' @ [10] @
     replicate (BLOCK_SIZE - 82) 0 @ map of_char ''Ok''"

text \<open>
  \<^verbatim>\<open>memcpy(dir_table->table[0].name, name, 8)\<close> copies eight bytes from \<open>name\<close>, the memory
  at the pointer.
\<close>

definition init_directory_table ::
  "FAT32DirectoryEntry list \<Rightarrow> u8 list \<Rightarrow> u32 \<Rightarrow> FAT32DirectoryEntry list" where
  "init_directory_table dir_table nm parent_dir_cluster =
     (let cluster_low = (ucast (parent_dir_cluster AND 0xFFFF) :: u16);
          cluster_high = (ucast (drop_bit 16 parent_dir_cluster AND 0xFFFF) :: u16)
      in dir_table[0 := (dir_table ! 0)\<lparr>cluster_low := cluster_low,
           cluster_high := cluster_high, user_attribute := UATTR_NOT_EMPTY,
           attribute := ATTR_SUBDIRECTORY, name := take 8 nm\<rparr>])"

text \<open>
  \<^verbatim>\<open>memcmp(&boot_sector, fs_signature, BLOCK_SIZE)\<close>. None of the first 64 bytes of the
  signature is zero. So a boot block that holds directory entries differs from the signature
  when one of its first two entries (32 bytes each) is all zero, and one that holds entries of
  the allocation table differs when one of its first sixteen entries is zero, whatever the
  layout of the fields; the comparison with any other such block is the fault
  \<open>Reinterpret\<close>.
\<close>

definition is_empty_storage :: "disk \<Rightarrow> fault + bool" where
  "is_empty_storage d =
     (case read_blocks d BOOT_SECTOR 1 of
        [ByteBlock boot_sector] \<Rightarrow> Inr (boot_sector \<noteq> fs_signature)
      | [EntryBlock es] \<Rightarrow>
          if list_ex (\<lambda>e. e = zero_entry) (take 2 es) then Inr True else Inl Reinterpret
      | [LinkBlock ls] \<Rightarrow>
          if list_ex (\<lambda>l. l = 0) (take 16 ls) then Inr True else Inl Reinterpret
      | _ \<Rightarrow> Inl Reinterpret)"

text \<open>\<^verbatim>\<open>for (uint16_t i = 3; i < CLUSTER_MAP_SIZE; i++) cluster_map[i] = FAT32_FAT_EMPTY_ENTRY;\<close>\<close>

function clear_map_from :: "nat \<Rightarrow> u32 list \<Rightarrow> u32 list" where
  "clear_map_from i cluster_map =
     (if i < CLUSTER_MAP_SIZE
      then clear_map_from (Suc i) (cluster_map[i := FAT32_FAT_EMPTY_ENTRY])
      else cluster_map)"
  by pat_completeness auto
termination
  by (relation "measure (\<lambda>(i, m). CLUSTER_MAP_SIZE - i)") auto

declare clear_map_from.simps [simp del]

text \<open>
  \<open>after_literal\<close> is the memory behind the string literal \<^verbatim>\<open>"root"\<close>: the literal has five
  bytes and \<^verbatim>\<open>init_directory_table\<close> copies eight.
\<close>

definition create_fat32 :: "u8 list \<Rightarrow> fs \<Rightarrow> fs" where
  "create_fat32 after_literal s =
     (let d1 = write_blocks (storage s) [ByteBlock fs_signature] BOOT_SECTOR 1;
          m0 = (fat_table s)[0 := CLUSTER_0_VALUE];
          m1 = m0[1 := CLUSTER_1_VALUE];
          m2 = m1[unat ROOT_CLUSTER_NUMBER := FAT32_FAT_END_OF_FILE];
          m3 = clear_map_from 3 m2;
          d2 = write_clusters d1 (fat_blocks m3) FAT_CLUSTER_NUMBER 1;
          root_dir_table = init_directory_table zero_table
             (map of_char ''root'' @ [0] @ after_literal) ROOT_CLUSTER_NUMBER;
          d3 = write_clusters d2 (table_blocks root_dir_table) ROOT_CLUSTER_NUMBER 1
      in s\<lparr>fat_table := m3, storage := d3\<rparr>)"

definition initialize_filesystem_fat32 :: "u8 list \<Rightarrow> fs \<Rightarrow> fault + fs" where
  "initialize_filesystem_fat32 after_literal s =
     (case is_empty_storage (storage s) of
        Inl f \<Rightarrow> Inl f
      | Inr True \<Rightarrow> Inr (create_fat32 after_literal s)
      | Inr False \<Rightarrow>
          (case as_fat (read_clusters (storage s) FAT_CLUSTER_NUMBER 1) of
             Inl f \<Rightarrow> Inl f
           | Inr m \<Rightarrow> Inr (s\<lparr>fat_table := m\<rparr>)))"

section \<open>The four operations\<close>

definition read_table :: "disk \<Rightarrow> u32 \<Rightarrow> fault + FAT32DirectoryEntry list" where
  "read_table d cluster_number = as_table (read_clusters d cluster_number 1)"

definition read_fat :: "disk \<Rightarrow> u32 \<Rightarrow> fault + u32 list" where
  "read_fat d cluster_number = as_fat (read_clusters d cluster_number 1)"

text \<open>
  \<^verbatim>\<open>!memcmp(table[i].name, request.name, 8) && !memcmp(table[i].ext, request.ext, 3)\<close>
\<close>

definition is_match :: "FAT32DirectoryEntry \<Rightarrow> FAT32DriverRequest \<Rightarrow> bool" where
  "is_match e request =
     (take 8 (name e) = take 8 (req_name request) \<and> take 3 (ext e) = take 3 (req_ext request))"

text \<open>
  The loop \<^verbatim>\<open>for (uint32_t i = 0; i < directory_size; i++)\<close> that all four operations open
  with: every one of them returns inside the first iteration whose slot matches, so the loop
  is the search for that index, from \<open>i\<close> on.
\<close>

function find_entry :: "FAT32DirectoryEntry list \<Rightarrow> FAT32DriverRequest \<Rightarrow> nat \<Rightarrow> nat option" where
  "find_entry t request i =
     (if i < directory_size
      then (if is_match (t ! i) request then Some i else find_entry t request (Suc i))
      else None)"
  by pat_completeness auto
termination
  by (relation "measure (\<lambda>(t, r, i). directory_size - i)") auto

declare find_entry.simps [simp del]

text \<open>\<^verbatim>\<open>cluster_low | (cluster_high << 16)\<close>\<close>

definition entry_cluster :: "FAT32DirectoryEntry \<Rightarrow> u32" where
  "entry_cluster e = ucast (cluster_low e) OR push_bit 16 (ucast (cluster_high e))"

definition read_directory :: "fs \<Rightarrow> FAT32DriverRequest \<Rightarrow> fault + (int \<times> fs)" where
  "read_directory s request =
     (case read_table (storage s) (parent_cluster_number request) of
        Inl f \<Rightarrow> Inl f
      | Inr t \<Rightarrow>
          (let s1 = s\<lparr>dir_table_buf := t\<rparr> in
           if attribute (t ! 0) \<noteq> ATTR_SUBDIRECTORY then Inr (- 1, s1)
           else (case find_entry t request 0 of
                   None \<Rightarrow> Inr (2, s1)
                 | Some i \<Rightarrow>
                     if attribute (t ! i) \<noteq> ATTR_SUBDIRECTORY then Inr (1, s1)
                     else (case read_table (storage s) (entry_cluster (t ! i)) of
                             Inl f \<Rightarrow> Inl f
                           | Inr t' \<Rightarrow> Inr (0, s1\<lparr>dir_table_buf := t'\<rparr>)))))"

text \<open>
  The \<^verbatim>\<open>do ... while (cluster_number != FAT32_FAT_END_OF_FILE)\<close> of \<^verbatim>\<open>read\<close>. \<open>copied\<close> is
  what the loop has put into the caller's buffer so far, block by block from the buffer's
  start: iteration \<open>offset\<close> copies one cluster to \<^verbatim>\<open>request.buf + offset * CLUSTER_SIZE\<close>,
  right behind the clusters copied before. The loop need not end: no result is \<open>None\<close>.
\<close>

partial_function (option) read_chain ::
  "u32 list \<Rightarrow> disk \<Rightarrow> u32 \<Rightarrow> block list \<Rightarrow> (fault + block list) option" where
  "read_chain cluster_map d cluster_number copied =
     (let copied2 = copied @ read_clusters d cluster_number 1 in
      if unat cluster_number < CLUSTER_MAP_SIZE
      then (let next = cluster_map ! unat cluster_number in
            if next \<noteq> FAT32_FAT_END_OF_FILE then read_chain cluster_map d next copied2
            else Some (Inr copied2))
      else Some (Inl OutOfBounds))"

text \<open>
  \<^verbatim>\<open>read\<close> returns its status, the driver state and the blocks copied into the caller's
  buffer.
\<close>

definition read :: "fs \<Rightarrow> FAT32DriverRequest \<Rightarrow> (fault + (int \<times> fs \<times> block list)) option" where
  "read s request =
     (case read_table (storage s) (parent_cluster_number request) of
        Inl f \<Rightarrow> Some (Inl f)
      | Inr t \<Rightarrow>
          (let s1 = s\<lparr>dir_table_buf := t\<rparr> in
           if attribute (t ! 0) \<noteq> ATTR_SUBDIRECTORY then Some (Inr (- 1, s1, []))
           else (case find_entry t request 0 of
                   None \<Rightarrow> Some (Inr (3, s1, []))
                 | Some i \<Rightarrow>
                     if attribute (t ! i) = ATTR_SUBDIRECTORY then Some (Inr (1, s1, []))
                     else if buffer_size request < filesize (t ! i) then Some (Inr (2, s1, []))
                     else (case read_chain (fat_table s) (storage s) (entry_cluster (t ! i)) [] of
                             None \<Rightarrow> None
                           | Some (Inl f) \<Rightarrow> Some (Inl f)
                           | Some (Inr copied) \<Rightarrow> Some (Inr (0, s1, copied))))))"

text \<open>
  \<^verbatim>\<open>int32_t ceil_div(int32_t a, int32_t b)\<close>: C division truncates towards zero and the
  remainder has the sign of the dividend. \<^verbatim>\<open>write\<close> passes the \<^verbatim>\<open>uint32_t\<close> size of the
  request; the conversion to \<^verbatim>\<open>int32_t\<close> keeps the bits (\<open>sint\<close>), and the result goes back
  into the \<^verbatim>\<open>uint32_t cluster_count\<close>.
\<close>

definition ceil_div :: "int \<Rightarrow> int \<Rightarrow> int" where
  "ceil_div a b = a sdiv b + (if a smod b \<noteq> 0 then 1 else 0)"

text \<open>The indices \<open>i\<close> from \<open>lo\<close> on with \<^verbatim>\<open>cluster_map[i] == FAT32_FAT_EMPTY_ENTRY\<close>, ascending.\<close>

definition free_clusters_from :: "nat \<Rightarrow> u32 list \<Rightarrow> nat list" where
  "free_clusters_from lo cluster_map =
     filter (\<lambda>i. cluster_map ! i = FAT32_FAT_EMPTY_ENTRY) [lo ..< CLUSTER_MAP_SIZE]"

text \<open>
  \<^verbatim>\<open>uint32_t empty_clusters[CLUSTER_MAP_SIZE] = { 0 }\<close> after the loop that collects the free
  indices from 0 on.
\<close>

definition collect_empty_clusters :: "u32 list \<Rightarrow> nat list" where
  "collect_empty_clusters cluster_map =
     (let found = free_clusters_from 0 cluster_map
      in found @ replicate (CLUSTER_MAP_SIZE - length found) 0)"

text \<open>\<^verbatim>\<open>for (uint32_t i = 0; i < cluster_count; i++)\<close> of the file branch of \<^verbatim>\<open>write\<close>.\<close>

function chain_clusters ::
  "nat \<Rightarrow> nat \<Rightarrow> nat list \<Rightarrow> (nat \<Rightarrow> u8) \<Rightarrow> u32 list \<Rightarrow> disk \<Rightarrow> u32 list \<times> disk" where
  "chain_clusters i cluster_count empty_clusters b cluster_map d =
     (if i < cluster_count
      then (let cluster_number = empty_clusters ! i;
                cluster_map2 =
                  (if i = cluster_count - 1
                   then cluster_map[cluster_number := FAT32_FAT_END_OF_FILE]
                   else cluster_map[cluster_number := of_nat (empty_clusters ! (i + 1))]);
                d2 = write_clusters d (buf_blocks b i) (of_nat cluster_number) 1
            in chain_clusters (Suc i) cluster_count empty_clusters b cluster_map2 d2)
      else (cluster_map, d))"
  by pat_completeness auto
termination
  by (relation "measure (\<lambda>(i, n, e, b, m, d). n - i)") auto

declare chain_clusters.simps [simp del]

text \<open>
  \<^verbatim>\<open>driver_state.dir_table_buf.table[i] = e\<close>. The table has the slots \<open>0..directory_size - 1\<close>;
  a store at \<open>directory_size\<close> lands behind the table, in \<open>overrun\<close>.
\<close>

definition store_entry :: "nat \<Rightarrow> FAT32DirectoryEntry \<Rightarrow> fs \<Rightarrow> fs" where
  "store_entry i e s =
     (if i < directory_size then s\<lparr>dir_table_buf := (dir_table_buf s)[i := e]\<rparr>
      else s\<lparr>overrun := Some e\<rparr>)"

text \<open>\<^verbatim>\<open>write\<close> of the source (\<open>write\<close> is a reserved word of Isabelle).\<close>

definition write_fat32 :: "fs \<Rightarrow> FAT32DriverRequest \<Rightarrow> fault + (int \<times> fs)" where
  "write_fat32 s request =
     (case read_table (storage s) (parent_cluster_number request) of
        Inl f \<Rightarrow> Inl f
      | Inr t \<Rightarrow>
          (let s1 = s\<lparr>dir_table_buf := t\<rparr> in
           if attribute (t ! 0) \<noteq> ATTR_SUBDIRECTORY then Inr (- 1, s1)
           else if find_entry t request 0 \<noteq> None then Inr (1, s1)
           else
             (let cluster_count =
                    (word_of_int (ceil_div (sint (buffer_size request)) (int CLUSTER_SIZE)) :: u32);
                  cluster_available = length (free_clusters_from 2 (fat_table s))
              in if cluster_available < unat cluster_count then Inr (- 1, s1)
                 else
                   (let empty_cluster =
                          (case free_clusters_from 2 (fat_table s) of [] \<Rightarrow> 0 | i # _ \<Rightarrow> i);
                        new_entry = zero_entry\<lparr>filesize := buffer_size request,
                          user_attribute := UATTR_NOT_EMPTY,
                          name := take 8 (req_name request),
                          ext := take 3 (req_ext request),
                          cluster_low := ucast ((of_nat empty_cluster :: u32) AND 0xFFFF),
                          cluster_high :=
                            ucast (drop_bit 16 (of_nat empty_cluster :: u32) AND 0xFFFF)\<rparr>;
                        (new_entry2, cluster_map2, d2) =
                          (if buffer_size request = 0
                           then (new_entry\<lparr>attribute := ATTR_SUBDIRECTORY\<rparr>,
                                 (fat_table s)[empty_cluster := FAT32_FAT_END_OF_FILE],
                                 write_clusters (storage s)
                                   (table_blocks (init_directory_table zero_table
                                      (req_name request) (parent_cluster_number request)))
                                   (of_nat empty_cluster) 1)
                           else (let (m, d) =
                                       chain_clusters 0 (unat cluster_count)
                                         (collect_empty_clusters (fat_table s)) (buf request)
                                         (fat_table s) (storage s)
                                 in (new_entry, m, d)));
                        s2 = store_entry directory_size new_entry2 s1;
                        d3 = write_clusters d2 (table_blocks (dir_table_buf s2))
                                (parent_cluster_number request) 1;
                        d4 = write_clusters d3 (fat_blocks cluster_map2) FAT_CLUSTER_NUMBER 1
                    in Inr (0, s2\<lparr>fat_table := cluster_map2, storage := d4\<rparr>)))))"

text \<open>
  The \<^verbatim>\<open>do ... while\<close> of \<^verbatim>\<open>delete\<close>: each cluster on the way is set to
  \<^verbatim>\<open>FAT32_FAT_EMPTY_ENTRY\<close> after its successor has been read.
\<close>

partial_function (option) free_chain :: "u32 list \<Rightarrow> u32 \<Rightarrow> (fault + u32 list) option" where
  "free_chain cluster_map cluster_number =
     (if unat cluster_number < CLUSTER_MAP_SIZE
      then (let next_cluster = cluster_map ! unat cluster_number;
                cluster_map2 = cluster_map[unat cluster_number := FAT32_FAT_EMPTY_ENTRY]
            in if next_cluster \<noteq> FAT32_FAT_END_OF_FILE then free_chain cluster_map2 next_cluster
               else Some (Inr cluster_map2))
      else Some (Inl OutOfBounds))"

text \<open>
  \<^verbatim>\<open>for (uint32_t i = 1; i < directory_size; i++)\<close> with
  \<^verbatim>\<open>if (dir_table.table[i].user_attribute == UATTR_NOT_EMPTY) return 2;\<close>
\<close>

definition has_occupied_slot :: "FAT32DirectoryEntry list \<Rightarrow> bool" where
  "has_occupied_slot t =
     list_ex (\<lambda>i. user_attribute (t ! i) = UATTR_NOT_EMPTY) [1 ..< directory_size]"

text \<open>
  \<^verbatim>\<open>table[i].user_attribute = 0; memset(table[i].name, 0, 8); memset(table[i].ext, 0, 3);\<close>
\<close>

definition tombstone :: "FAT32DirectoryEntry \<Rightarrow> FAT32DirectoryEntry" where
  "tombstone e = e\<lparr>user_attribute := 0, name := replicate 8 0, ext := replicate 3 0\<rparr>"

definition delete :: "fs \<Rightarrow> FAT32DriverRequest \<Rightarrow> (fault + (int \<times> fs)) option" where
  "delete s request =
     (case read_table (storage s) (parent_cluster_number request) of
        Inl f \<Rightarrow> Some (Inl f)
      | Inr t \<Rightarrow>
          (let s1 = s\<lparr>dir_table_buf := t\<rparr> in
           if attribute (t ! 0) \<noteq> ATTR_SUBDIRECTORY then Some (Inr (- 1, s1))
           else (case find_entry t request 0 of
                   None \<Rightarrow> Some (Inr (1, s1))
                 | Some i \<Rightarrow>
                     (let entry = t ! i;
                          occupied =
                            (if attribute entry = ATTR_SUBDIRECTORY
                             then (case read_table (storage s) (entry_cluster entry) of
                                     Inl f \<Rightarrow> Inl f
                                   | Inr dir_table \<Rightarrow> Inr (has_occupied_slot dir_table))
                             else Inr False)
                      in case occupied of
                           Inl f \<Rightarrow> Some (Inl f)
                         | Inr True \<Rightarrow> Some (Inr (2, s1))
                         | Inr False \<Rightarrow>
                             (let s2 = s1\<lparr>dir_table_buf := t[i := tombstone (t ! i)]\<rparr> in
                              case free_chain (fat_table s) (entry_cluster entry) of
                                None \<Rightarrow> None
                              | Some (Inl f) \<Rightarrow> Some (Inl f)
                              | Some (Inr cluster_map2) \<Rightarrow>
                                  (let d1 = write_clusters (storage s)
                                              (table_blocks (dir_table_buf s2))
                                              (parent_cluster_number request) 1;
                                       d2 = write_clusters d1 (fat_blocks cluster_map2)
                                              FAT_CLUSTER_NUMBER 1
                                   in Some (Inr (0, s2\<lparr>fat_table := cluster_map2,
                                        storage := d2\<rparr>))))))))"


section \<open>States and inputs the theorems speak about\<close>

text \<open>A device that was never written: every block is 512 zero bytes.\<close>

definition blank_disk :: disk where
  "blank_disk = (\<lambda>a. ByteBlock (replicate BLOCK_SIZE 0))"

text \<open>\<^verbatim>\<open>static struct FAT32DriverState driver_state = { 0 }\<close> over the blank device.\<close>

definition initial_state :: fs where
  "initial_state = \<lparr>fat_table = replicate CLUSTER_MAP_SIZE 0, dir_table_buf = zero_table,
     overrun = None, storage = blank_disk\<rparr>"

text \<open>
  The allocation table of a fresh file system: the two reserved values, \<open>EndOfChain\<close> for
  the root directory's cluster, \<open>Free\<close> for every other cluster.
\<close>

definition formatted_map :: "u32 list" where
  "formatted_map = [CLUSTER_0_VALUE, CLUSTER_1_VALUE, FAT32_FAT_END_OF_FILE] @
     replicate (CLUSTER_MAP_SIZE - 3) FAT32_FAT_EMPTY_ENTRY"


text \<open>The file system right after formatting the blank device.\<close>

definition formatted :: fs where
  "formatted = create_fat32 [0, 0, 0] initial_state"

text \<open>The root directory table that \<^verbatim>\<open>create_fat32\<close> builds there.\<close>

definition root_table :: "FAT32DirectoryEntry list" where
  "root_table = init_directory_table zero_table (map of_char ''root'' @ [0, 0, 0, 0])
     ROOT_CLUSTER_NUMBER"

text \<open>A request for the five-byte file \<^verbatim>\<open>FILE1.TXT\<close> in the root directory.\<close>

definition file1_request :: FAT32DriverRequest where
  "file1_request = \<lparr>buf = (\<lambda>i. if i < 5 then map of_char ''Hello'' ! i else 0),
     req_name = map of_char ''FILE1'' @ [0, 0, 0], req_ext = map of_char ''TXT'',
     parent_cluster_number = ROOT_CLUSTER_NUMBER, buffer_size = 5\<rparr>"

text \<open>A request whose name and extension are those of slot 0 of the root directory.\<close>

definition root_request :: FAT32DriverRequest where
  "root_request = \<lparr>buf = (\<lambda>i. 0),
     req_name = map of_char ''root'' @ [0, 0, 0, 0], req_ext = [0, 0, 0],
     parent_cluster_number = ROOT_CLUSTER_NUMBER, buffer_size = 0\<rparr>"

text \<open>A request whose name and extension are all zero bytes.\<close>

definition zero_request :: FAT32DriverRequest where
  "zero_request = \<lparr>buf = (\<lambda>i. 0), req_name = replicate 8 0, req_ext = replicate 3 0,
     parent_cluster_number = ROOT_CLUSTER_NUMBER, buffer_size = 0\<rparr>"


text \<open>
  The cluster chain that starts at \<open>c\<close> in the allocation table \<open>m\<close>: \<open>cs\<close> lists its clusters
  in link order. Every cluster of the chain is an index of the table, the entry of each but
  the last holds the number of the next, and the entry of the last holds \<open>EndOfChain\<close>.
\<close>

fun chain_in :: "u32 list \<Rightarrow> u32 \<Rightarrow> u32 list \<Rightarrow> bool" where
  "chain_in m c [] = False"
| "chain_in m c [x] =
     (x = c \<and> unat c < CLUSTER_MAP_SIZE \<and> m ! unat c = FAT32_FAT_END_OF_FILE)"
| "chain_in m c (x # y # ys) =
     (x = c \<and> unat c < CLUSTER_MAP_SIZE \<and> m ! unat c = y \<and> y \<noteq> FAT32_FAT_END_OF_FILE \<and>
      chain_in m y (y # ys))"

text \<open>The allocation table \<open>m\<close> with the entries of the clusters \<open>cs\<close> set to \<open>Free\<close>.\<close>

definition freed :: "u32 list \<Rightarrow> u32 list \<Rightarrow> u32 list" where
  "freed m cs = fold (\<lambda>c m. m[unat c := FAT32_FAT_EMPTY_ENTRY]) cs m"

text \<open>
  A file system with one file of 3000 bytes in the clusters 3 and 4, entered in slot 1 of
  the root directory, and the request that names it with a buffer of two clusters.
\<close>

definition file1_entry :: FAT32DirectoryEntry where
  "file1_entry = zero_entry\<lparr>name := map of_char ''FILE1'' @ [0, 0, 0],
     ext := map of_char ''TXT'', user_attribute := UATTR_NOT_EMPTY, cluster_low := 3,
     filesize := 3000\<rparr>"

definition with_file :: fs where
  "with_file = formatted\<lparr>
     fat_table := formatted_map[3 := 4, 4 := FAT32_FAT_END_OF_FILE],
     storage := write_clusters
       (write_clusters (storage formatted) (table_blocks (root_table[1 := file1_entry]))
          ROOT_CLUSTER_NUMBER 1)
       (fat_blocks (formatted_map[3 := 4, 4 := FAT32_FAT_END_OF_FILE])) FAT_CLUSTER_NUMBER 1\<rparr>"

definition file1_read_request :: FAT32DriverRequest where
  "file1_read_request = file1_request\<lparr>buffer_size := 4096\<rparr>"

text \<open>The state in which \<^verbatim>\<open>write\<close> leaves the fresh file system for that request.\<close>

definition after_file1 :: fs where
  "after_file1 = (case write_fat32 formatted file1_request of Inl f \<Rightarrow> formatted | Inr (st, s') \<Rightarrow> s')"

text \<open>The entry that \<^verbatim>\<open>write\<close> builds for the request.\<close>

definition file1_new_entry :: FAT32DirectoryEntry where
  "file1_new_entry = zero_entry\<lparr>filesize := 5, user_attribute := UATTR_NOT_EMPTY,
     name := map of_char ''FILE1'' @ [0, 0, 0], ext := map of_char ''TXT'', cluster_low := 3,
     cluster_high := 0\<rparr>"

text \<open>The same request with the largest size a \<^verbatim>\<open>uint32_t\<close> holds.\<close>

definition huge_request :: FAT32DriverRequest where
  "huge_request = file1_request\<lparr>buffer_size := 0xFFFFFFFF\<rparr>"

text \<open>A request to create the directory \<^verbatim>\<open>DIR1\<close> in the root directory.\<close>

definition mkdir_request :: FAT32DriverRequest where
  "mkdir_request = \<lparr>buf = (\<lambda>i. 0), req_name = map of_char ''DIR1'' @ [0, 0, 0, 0],
     req_ext = [0, 0, 0], parent_cluster_number = ROOT_CLUSTER_NUMBER, buffer_size = 0\<rparr>"

text \<open>
  \<open>n\<close> calls of \<^verbatim>\<open>write\<close> with the same request, one after the other, for as long as each
  returns 0.
\<close>

fun write_repeatedly :: "nat \<Rightarrow> fs \<Rightarrow> FAT32DriverRequest \<Rightarrow> fault + (int \<times> fs)" where
  "write_repeatedly 0 s r = Inr (0, s)"
| "write_repeatedly (Suc n) s r =
     (case write_repeatedly n s r of
        Inl f \<Rightarrow> Inl f
      | Inr (st, s') \<Rightarrow> if st = 0 then write_fat32 s' r else Inr (st, s'))"

text \<open>
  The allocation table of the fresh file system after \<open>k\<close> directories have been created:
  the root and each new directory hold one cluster, the clusters \<open>2..k + 2\<close>.
\<close>

definition dirs_map :: "nat \<Rightarrow> u32 list" where
  "dirs_map k = [CLUSTER_0_VALUE, CLUSTER_1_VALUE] @ replicate (Suc k) FAT32_FAT_END_OF_FILE @
     replicate (CLUSTER_MAP_SIZE - 3 - k) FAT32_FAT_EMPTY_ENTRY"

section \<open>Blocks, clusters and structures\<close>

lemma concat_chunk_take: "concat (chunk n k xs) = take (k * n) xs"
proof (induction k)
  case 0
  then show ?case by (simp add: chunk_def)
next
  case (Suc k)
  have "chunk n (Suc k) xs = chunk n k xs @ [take n (drop (k * n) xs)]"
    by (simp add: chunk_def)
  then have "concat (chunk n (Suc k) xs) = take (k * n) xs @ take n (drop (k * n) xs)"
    using Suc by simp
  also have "\<dots> = take (k * n + n) xs" by (simp only: take_add)
  also have "k * n + n = Suc k * n" by simp
  finally show ?case .
qed

lemma concat_chunk: "length xs = k * n \<Longrightarrow> concat (chunk n k xs) = xs"
  by (simp add: concat_chunk_take)

lemma length_chunk [simp]: "length (chunk n k xs) = k"
  by (simp add: chunk_def)

lemma chunk_lengths: "k * n \<le> length xs \<Longrightarrow> ys \<in> set (chunk n k xs) \<Longrightarrow> length ys = n"
proof -
  assume a: "k * n \<le> length xs" and b: "ys \<in> set (chunk n k xs)"
  from b obtain i where i: "i < k" "ys = take n (drop (i * n) xs)"
    by (auto simp: chunk_def)
  from i(1) have "Suc i * n \<le> k * n" by (intro mult_le_mono1) simp
  with a have "i * n + n \<le> length xs" by simp
  with i show ?thesis by simp
qed

lemma read_write_blocks_same:
  "n \<le> length src \<Longrightarrow> read_blocks (write_blocks d src lba n) lba n = take n src"
  by (auto simp: read_blocks_def write_blocks_def intro!: nth_equalityI)

lemma read_write_blocks_other:
  "lba' + n' \<le> lba \<or> lba + n \<le> lba' \<Longrightarrow>
   read_blocks (write_blocks d src lba n) lba' n' = read_blocks d lba' n'"
  by (auto simp: read_blocks_def write_blocks_def)

lemma as_table_table_blocks:
  "length t = directory_size \<Longrightarrow> as_table (table_blocks t) = Inr t"
  unfolding as_table_def table_blocks_def
  apply (simp add: list_all_iff comp_def concat_chunk_take)
  apply (auto simp: ENTRIES_PER_BLOCK_def directory_size_def CLUSTER_BLOCK_COUNT_def dest!: chunk_lengths[rotated])
  done

lemma as_fat_fat_blocks:
  "length f = CLUSTER_MAP_SIZE \<Longrightarrow> as_fat (fat_blocks f) = Inr f"
  unfolding as_fat_def fat_blocks_def
  apply (simp add: list_all_iff comp_def concat_chunk_take)
  apply (auto simp: LINKS_PER_BLOCK_def CLUSTER_MAP_SIZE_def CLUSTER_BLOCK_COUNT_def dest!: chunk_lengths[rotated])
  done

lemma cluster_to_lba_mod: "cluster_to_lba c mod 4 = 0"
  unfolding cluster_to_lba_def CLUSTER_BLOCK_COUNT_def
  by (simp add: unat_word_ariths mod_mod_cancel)

lemma cluster_to_lba_bound: "cluster_to_lba c < 2 ^ 32"
  unfolding cluster_to_lba_def using unsigned_less[of "c * of_nat CLUSTER_BLOCK_COUNT"] by simp

lemma cluster_to_lba_small: "n < 2 ^ 30 \<Longrightarrow> cluster_to_lba (of_nat n) = 4 * n"
  unfolding cluster_to_lba_def CLUSTER_BLOCK_COUNT_def
  by (simp add: unat_word_ariths unat_of_nat)

lemma split_join_cluster:
  "(ucast (ucast (p AND 0xFFFF) :: u16) :: u32) OR
     push_bit 16 (ucast (ucast (drop_bit 16 p AND 0xFFFF) :: u16)) = (p :: u32)"
proof -
  have m: "(0xFFFF :: u32) = mask 16"
    by (simp add: mask_eq_exp_minus_1)
  show ?thesis
    unfolding m by (rule bit_word_eqI) (auto simp: bit_simps)
qed

lemma length_table_blocks [simp]: "length (table_blocks t) = CLUSTER_BLOCK_COUNT"
  by (simp add: table_blocks_def)

lemma length_fat_blocks [simp]: "length (fat_blocks t) = CLUSTER_BLOCK_COUNT"
  by (simp add: fat_blocks_def)

lemma length_buf_blocks [simp]: "length (buf_blocks b i) = CLUSTER_BLOCK_COUNT"
  by (simp add: buf_blocks_def)

lemma read_clusters_write_same:
  "length src = CLUSTER_BLOCK_COUNT \<Longrightarrow> read_clusters (write_clusters d src c (Suc 0)) c (Suc 0) = src"
  by (simp add: read_clusters_def write_clusters_def read_write_blocks_same)

lemma lba_ranges_disjoint:
  assumes "cluster_to_lba c \<noteq> cluster_to_lba c'"
  shows "cluster_to_lba c' + 4 \<le> cluster_to_lba c \<or> cluster_to_lba c + 4 \<le> cluster_to_lba c'"
  using assms cluster_to_lba_mod[of c] cluster_to_lba_mod[of c'] by presburger

lemma read_clusters_write_other:
  "cluster_to_lba c \<noteq> cluster_to_lba c' \<Longrightarrow>
   read_clusters (write_clusters d src c (Suc 0)) c' (Suc 0) = read_clusters d c' (Suc 0)"
  using lba_ranges_disjoint[of c c']
  by (simp add: read_clusters_def write_clusters_def read_write_blocks_other CLUSTER_BLOCK_COUNT_def)

lemma read_boot_write_clusters:
  "cluster_to_lba c \<noteq> 0 \<Longrightarrow>
   read_blocks (write_clusters d src c (Suc 0)) BOOT_SECTOR (Suc 0) = read_blocks d BOOT_SECTOR (Suc 0)"
  using cluster_to_lba_mod[of c]
  by (auto simp: write_clusters_def read_blocks_def write_blocks_def BOOT_SECTOR_def CLUSTER_BLOCK_COUNT_def)

lemma lba_FAT [simp]: "cluster_to_lba FAT_CLUSTER_NUMBER = 4"
  by (simp add: cluster_to_lba_def FAT_CLUSTER_NUMBER_def CLUSTER_BLOCK_COUNT_def)

lemma lba_ROOT [simp]: "cluster_to_lba ROOT_CLUSTER_NUMBER = 8"
  by (simp add: cluster_to_lba_def ROOT_CLUSTER_NUMBER_def CLUSTER_BLOCK_COUNT_def)

lemma length_clear_map_from [simp]: "length (clear_map_from i m) = length m"
  by (induction i m rule: clear_map_from.induct) (simp add: clear_map_from.simps)

lemma nth_clear_map_from:
  "j < length m \<Longrightarrow>
   clear_map_from i m ! j = (if i \<le> j \<and> j < CLUSTER_MAP_SIZE then FAT32_FAT_EMPTY_ENTRY else m ! j)"
proof (induction i m rule: clear_map_from.induct)
  case (1 i m)
  show ?case
  proof (cases "i < CLUSTER_MAP_SIZE")
    case True
    then show ?thesis
      using 1 by (subst clear_map_from.simps) (auto simp: nth_list_update)
  next
    case False
    then show ?thesis by (subst clear_map_from.simps) auto
  qed
qed

lemma length_init_directory_table [simp]:
  "length (init_directory_table t nm p) = length t"
  by (simp add: init_directory_table_def Let_def)

lemma init_directory_table_slot0:
  "t \<noteq> [] \<Longrightarrow> attribute (init_directory_table t nm p ! 0) = ATTR_SUBDIRECTORY \<and>
     user_attribute (init_directory_table t nm p ! 0) = UATTR_NOT_EMPTY \<and>
     entry_cluster (init_directory_table t nm p ! 0) = p \<and>
     name (init_directory_table t nm p ! 0) = take 8 nm \<and>
     ext (init_directory_table t nm p ! 0) = ext (t ! 0) \<and>
     filesize (init_directory_table t nm p ! 0) = filesize (t ! 0)"
  by (simp add: init_directory_table_def Let_def entry_cluster_def split_join_cluster)

lemma init_directory_table_rest:
  "0 < i \<Longrightarrow> init_directory_table t nm p ! i = t ! i"
  by (simp add: init_directory_table_def Let_def)

lemma length_zero_table [simp]: "length zero_table = directory_size"
  by (simp add: zero_table_def)

section \<open>Bootstrap\<close>

lemma create_fat32_map:
  assumes "length (fat_table s) = CLUSTER_MAP_SIZE"
  shows "fat_table (create_fat32 al s) = formatted_map"
proof (rule nth_equalityI)
  show "length (fat_table (create_fat32 al s)) = length formatted_map"
    using assms by (simp add: create_fat32_def Let_def formatted_map_def CLUSTER_MAP_SIZE_def)
next
  fix i assume "i < length (fat_table (create_fat32 al s))"
  then have i: "i < CLUSTER_MAP_SIZE"
    using assms by (simp add: create_fat32_def Let_def)
  consider "i = 0" | "i = 1" | "i = 2" | "3 \<le> i" by linarith
  then show "fat_table (create_fat32 al s) ! i = formatted_map ! i"
  proof cases
    case 4
    then show ?thesis
      using i assms
      by (simp add: create_fat32_def Let_def formatted_map_def nth_clear_map_from nth_append
          nth_Cons')
  qed (use i assms in \<open>simp_all add: create_fat32_def Let_def formatted_map_def nth_clear_map_from
          ROOT_CLUSTER_NUMBER_def CLUSTER_MAP_SIZE_def\<close>)
qed

lemma length_formatted_map [simp]: "length formatted_map = CLUSTER_MAP_SIZE"
  by (simp add: formatted_map_def CLUSTER_MAP_SIZE_def)

lemma create_fat32_storage:
  "storage (create_fat32 al s) =
     write_clusters
       (write_clusters (write_blocks (storage s) [ByteBlock fs_signature] BOOT_SECTOR 1)
          (fat_blocks (fat_table (create_fat32 al s))) FAT_CLUSTER_NUMBER 1)
       (table_blocks (init_directory_table zero_table (map of_char ''root'' @ [0] @ al)
          ROOT_CLUSTER_NUMBER)) ROOT_CLUSTER_NUMBER 1"
  by (simp add: create_fat32_def Let_def)

text \<open>\<^verbatim>\<open>initialize_filesystem_fat32\<close> formats an unformatted device and loads the table of a formatted one.\<close>

lemma initialize_unformatted:
  "is_empty_storage (storage s) = Inr True \<Longrightarrow>
   initialize_filesystem_fat32 al s = Inr (create_fat32 al s)"
  by (simp add: initialize_filesystem_fat32_def)

lemma initialize_formatted:
  "is_empty_storage (storage s) = Inr False \<Longrightarrow>
   read_fat (storage s) FAT_CLUSTER_NUMBER = Inr m \<Longrightarrow>
   initialize_filesystem_fat32 al s = Inr (s\<lparr>fat_table := m\<rparr>)"
  by (simp add: initialize_filesystem_fat32_def read_fat_def)

section \<open>The entry scan and the rejected paths\<close>

lemma find_entry_Some:
  "find_entry t r i = Some k \<Longrightarrow>
   i \<le> k \<and> k < directory_size \<and> is_match (t ! k) r \<and> (\<forall>j. i \<le> j \<and> j < k \<longrightarrow> \<not> is_match (t ! j) r)"
proof (induction t r i rule: find_entry.induct)
  case (1 t r i)
  show ?case
  proof (cases "i < directory_size \<and> \<not> is_match (t ! i) r")
    case True
    then have "find_entry t r (Suc i) = Some k"
      using "1.prems" by (subst (asm) find_entry.simps) simp
    with 1 True have ih: "Suc i \<le> k \<and> k < directory_size \<and> is_match (t ! k) r \<and>
        (\<forall>j. Suc i \<le> j \<and> j < k \<longrightarrow> \<not> is_match (t ! j) r)"
      by blast
    have "\<not> is_match (t ! j) r" if "i \<le> j" "j < k" for j
      using that ih True by (cases "j = i") auto
    with ih show ?thesis by auto
  next
    case False
    then show ?thesis
      using "1.prems" by (subst (asm) find_entry.simps) (auto split: if_splits)
  qed
qed

lemma find_entry_None:
  "find_entry t r i = None \<longleftrightarrow> (\<forall>j. i \<le> j \<and> j < directory_size \<longrightarrow> \<not> is_match (t ! j) r)"
proof (induction t r i rule: find_entry.induct)
  case (1 t r i)
  show ?case
  proof (cases "i < directory_size")
    case True
    show ?thesis
    proof (cases "is_match (t ! i) r")
      case m: True
      then show ?thesis using True by (subst find_entry.simps) auto
    next
      case m: False
      have "find_entry t r i = find_entry t r (Suc i)"
        using True m by (subst find_entry.simps) simp
      moreover have "(\<forall>j. i \<le> j \<and> j < directory_size \<longrightarrow> \<not> is_match (t ! j) r) \<longleftrightarrow>
          (\<forall>j. Suc i \<le> j \<and> j < directory_size \<longrightarrow> \<not> is_match (t ! j) r)"
        using m by (metis Suc_leI le_neq_implies_less Suc_leD)
      ultimately show ?thesis using 1 True m by simp
    qed
  next
    case False
    then show ?thesis by (subst find_entry.simps) auto
  qed
qed

lemma find_entry_first:
  assumes "i \<le> k" "k < directory_size" "is_match (t ! k) r"
    and "\<forall>j. i \<le> j \<and> j < k \<longrightarrow> \<not> is_match (t ! j) r"
  shows "find_entry t r i = Some k"
proof (cases "find_entry t r i")
  case None
  then show ?thesis using assms by (auto simp: find_entry_None)
next
  case (Some k')
  from find_entry_Some[OF Some] assms have "k' = k"
    by (metis linorder_neqE_nat)
  with Some show ?thesis by simp
qed





section \<open>The formatted file system\<close>

lemma replicate_8: "replicate 8 x = [x, x, x, x, x, x, x, x]"
  by (simp add: numeral_eq_Suc)

lemma replicate_3: "replicate 3 x = [x, x, x]"
  by (simp add: numeral_eq_Suc)

lemma formatted_map_eq [simp]: "fat_table formatted = formatted_map"
  by (simp add: formatted_def create_fat32_map initial_state_def)

lemma formatted_root [simp]:
  "read_table (storage formatted) ROOT_CLUSTER_NUMBER = Inr root_table"
  by (simp add: formatted_def create_fat32_storage read_table_def read_clusters_write_same
      as_table_table_blocks root_table_def)

lemma length_root_table [simp]: "length root_table = directory_size"
  by (simp add: root_table_def)

lemma root_table_0:
  "attribute (root_table ! 0) = ATTR_SUBDIRECTORY"
  "entry_cluster (root_table ! 0) = ROOT_CLUSTER_NUMBER"
  "name (root_table ! 0) = map of_char ''root'' @ [0, 0, 0, 0]"
  "ext (root_table ! 0) = [0, 0, 0]"
  using init_directory_table_slot0[of zero_table "map of_char ''root'' @ [0, 0, 0, 0]" ROOT_CLUSTER_NUMBER]
  by (simp_all add: root_table_def zero_table_def directory_size_def zero_entry_def replicate_3)

lemma root_table_rest:
  "0 < j \<Longrightarrow> j < directory_size \<Longrightarrow> root_table ! j = zero_entry"
  by (simp add: root_table_def init_directory_table_rest zero_table_def)

lemma root_no_file1: "find_entry root_table file1_request 0 = None"
proof -
  have "\<not> is_match (root_table ! j) file1_request" if "j < directory_size" for j
  proof (cases "j = 0")
    case True
    then show ?thesis by (simp add: is_match_def root_table_0 file1_request_def)
  next
    case False
    with that have "root_table ! j = zero_entry" by (simp add: root_table_rest)
    then show ?thesis by (simp add: is_match_def zero_entry_def file1_request_def replicate_8)
  qed
  then show ?thesis by (simp add: find_entry_None)
qed


section \<open>Matching and the occupancy flag\<close>

lemma as_table_length: "as_table bs = Inr t \<Longrightarrow> length t = length bs * ENTRIES_PER_BLOCK"
proof -
  have "list_all is_entry_block bs \<Longrightarrow> length (concat (map block_entries bs)) = length bs * ENTRIES_PER_BLOCK"
  proof (induction bs)
    case Nil
    then show ?case by simp
  next
    case (Cons b bs)
    then show ?case by (cases b) auto
  qed
  then show "as_table bs = Inr t \<Longrightarrow> length t = length bs * ENTRIES_PER_BLOCK"
    by (auto simp: as_table_def split: if_splits)
qed

lemma read_table_length: "read_table d c = Inr t \<Longrightarrow> length t = directory_size"
  by (auto simp: read_table_def read_clusters_def read_blocks_def ENTRIES_PER_BLOCK_def
      directory_size_def CLUSTER_BLOCK_COUNT_def dest!: as_table_length)

lemma is_match_occupancy [simp]: "is_match (e\<lparr>user_attribute := u\<rparr>) r = is_match e r"
  by (simp add: is_match_def)

lemma find_entry_occupancy:
  "directory_size \<le> length t \<Longrightarrow>
   find_entry (map (\<lambda>e. e\<lparr>user_attribute := f e\<rparr>) t) r i = find_entry t r i"
proof (induction t r i rule: find_entry.induct)
  case (1 t r i)
  show ?case
  proof (cases "i < directory_size")
    case True
    then have "is_match (map (\<lambda>e. e\<lparr>user_attribute := f e\<rparr>) t ! i) r = is_match (t ! i) r"
      using "1.prems" by simp
    then show ?thesis
      using True 1
      by (subst find_entry.simps, subst (2) find_entry.simps) auto
  next
    case False
    then show ?thesis
      by (subst find_entry.simps, subst (2) find_entry.simps) simp
  qed
qed

section \<open>Cluster chains\<close>

lemma chain_in_hd: "chain_in m c cs \<Longrightarrow> cs \<noteq> [] \<and> hd cs = c"
  by (induction m c cs rule: chain_in.induct) auto

lemma chain_in_Cons:
  "chain_in m c (x # xs) \<longleftrightarrow>
     x = c \<and> unat c < CLUSTER_MAP_SIZE \<and>
     (if xs = [] then m ! unat c = FAT32_FAT_END_OF_FILE
      else m ! unat c = hd xs \<and> hd xs \<noteq> FAT32_FAT_END_OF_FILE \<and> chain_in m (hd xs) xs)"
  by (cases xs) auto

lemma read_chain_chain:
  "chain_in m c cs \<Longrightarrow>
   read_chain m d c acc = Some (Inr (acc @ concat (map (\<lambda>c. read_clusters d c 1) cs)))"
proof (induction m c cs arbitrary: acc rule: chain_in.induct)
  case (1 m c)
  then show ?case by simp
next
  case (2 m c x)
  then show ?case by (subst read_chain.simps) simp
next
  case (3 m c x y ys)
  then have "read_chain m d c acc = read_chain m d y (acc @ read_clusters d c 1)"
    by (subst read_chain.simps) simp
  with 3 show ?case by simp
qed

lemma chain_in_last:
  "chain_in m c cs \<Longrightarrow> m ! unat (last cs) = FAT32_FAT_END_OF_FILE"
  by (induction m c cs rule: chain_in.induct) auto

lemma chain_in_range:
  "chain_in m c cs \<Longrightarrow> x \<in> set cs \<Longrightarrow> unat x < CLUSTER_MAP_SIZE"
  by (induction m c cs rule: chain_in.induct) auto

lemma chain_in_unique: "chain_in m c cs \<Longrightarrow> chain_in m c cs' \<Longrightarrow> cs = cs'"
proof (induction m c cs arbitrary: cs' rule: chain_in.induct)
  case (1 m c)
  then show ?case by simp
next
  case (2 m c x)
  then show ?case by (cases cs') (auto simp: chain_in_Cons split: if_splits)
next
  case (3 m c x y ys)
  from "3.prems" obtain zs where cs': "cs' = c # zs" "zs \<noteq> []" "chain_in m y zs"
    by (cases cs') (auto simp: chain_in_Cons split: if_splits)
  from "3.prems"(1) have x: "x = c" and y: "chain_in m y (y # ys)" by simp_all
  from "3.IH"[OF y cs'(3)] have "y # ys = zs" .
  with cs'(1) x show ?case by simp
qed

lemma chain_in_suffix:
  "chain_in m c cs \<Longrightarrow> x \<in> set cs \<Longrightarrow> \<exists>pre suf. cs = pre @ suf \<and> chain_in m x suf"
proof (induction m c cs rule: chain_in.induct)
  case (1 m c)
  then show ?case by simp
next
  case (2 m c y)
  then have "[y] = [] @ [y] \<and> chain_in m x [y]" by simp
  then show ?case by blast
next
  case (3 m c z y ys)
  show ?case
  proof (cases "x = z")
    case True
    with "3.prems" have "z # y # ys = [] @ (z # y # ys) \<and> chain_in m x (z # y # ys)" by simp
    then show ?thesis by blast
  next
    case False
    with "3.prems" have "x \<in> set (y # ys)" "chain_in m y (y # ys)" by auto
    with "3.IH" obtain pre suf where "y # ys = pre @ suf" "chain_in m x suf" by blast
    then have "z # y # ys = (z # pre) @ suf \<and> chain_in m x suf" by simp
    then show ?thesis by blast
  qed
qed

lemma chain_in_distinct: "chain_in m c cs \<Longrightarrow> distinct cs"
proof (induction m c cs rule: chain_in.induct)
  case (1 m c)
  then show ?case by simp
next
  case (2 m c x)
  then show ?case by simp
next
  case (3 m c x y ys)
  then have tl: "chain_in m y (y # ys)" and x: "x = c" by auto
  have "c \<notin> set (y # ys)"
  proof
    assume "c \<in> set (y # ys)"
    with chain_in_suffix[OF tl] obtain pre suf where ps: "y # ys = pre @ suf" "chain_in m c suf"
      by blast
    from chain_in_unique[OF "3.prems" ps(2)] x have "suf = c # y # ys" by simp
    with ps(1) have "length (y # ys) = length pre + length (c # y # ys)" by (metis length_append)
    then show False by simp
  qed
  with 3 tl x show ?case by simp
qed

lemma chain_in_update:
  "chain_in m c cs \<Longrightarrow> x \<notin> set cs \<Longrightarrow> chain_in (m[unat x := v]) c cs"
proof (induction m c cs rule: chain_in.induct)
  case (1 m c)
  then show ?case by simp
next
  case (2 m c y)
  then have "unat x \<noteq> unat c" by (auto simp: word_unat_eq_iff)
  with 2 show ?case by simp
next
  case (3 m c z y ys)
  then have "unat x \<noteq> unat c" by (auto simp: word_unat_eq_iff)
  with 3 show ?case by simp
qed

lemma free_chain_chain:
  "chain_in m c cs \<Longrightarrow> free_chain m c = Some (Inr (freed m cs))"
proof (induction cs arbitrary: m c)
  case Nil
  then show ?case by simp
next
  case (Cons x xs)
  then have c: "x = c" "unat c < CLUSTER_MAP_SIZE" by (auto simp: chain_in_Cons)
  show ?case
  proof (cases "xs = []")
    case True
    with Cons.prems c show ?thesis
      by (subst free_chain.simps) (simp add: freed_def)
  next
    case False
    with Cons.prems have nx: "m ! unat c = hd xs" "hd xs \<noteq> FAT32_FAT_END_OF_FILE"
      "chain_in m (hd xs) xs"
      by (auto simp: chain_in_Cons)
    from chain_in_distinct[OF Cons.prems] c have "c \<notin> set xs" by simp
    with nx(3) have "chain_in (m[unat c := FAT32_FAT_EMPTY_ENTRY]) (hd xs) xs"
      by (rule chain_in_update)
    from Cons.IH[OF this] nx c show ?thesis
      by (subst free_chain.simps) (simp add: freed_def)
  qed
qed

lemma length_freed [simp]: "length (freed m cs) = length m"
  unfolding freed_def by (induction cs arbitrary: m) auto

lemma nth_freed:
  "k < length m \<Longrightarrow>
   freed m cs ! k = (if k \<in> unat ` set cs then FAT32_FAT_EMPTY_ENTRY else m ! k)"
  unfolding freed_def
proof (induction cs arbitrary: m)
  case Nil
  then show ?case by simp
next
  case (Cons c cs)
  then show ?case by (auto simp: nth_list_update)
qed

lemma as_fat_length: "as_fat bs = Inr f \<Longrightarrow> length f = length bs * LINKS_PER_BLOCK"
proof -
  have "list_all is_link_block bs \<Longrightarrow> length (concat (map block_links bs)) = length bs * LINKS_PER_BLOCK"
  proof (induction bs)
    case Nil
    then show ?case by simp
  next
    case (Cons b bs)
    then show ?case by (cases b) auto
  qed
  then show "as_fat bs = Inr f \<Longrightarrow> length f = length bs * LINKS_PER_BLOCK"
    by (auto simp: as_fat_def split: if_splits)
qed

lemma read_fat_length: "read_fat d c = Inr f \<Longrightarrow> length f = CLUSTER_MAP_SIZE"
  by (auto simp: read_fat_def read_clusters_def read_blocks_def LINKS_PER_BLOCK_def
      CLUSTER_MAP_SIZE_def CLUSTER_BLOCK_COUNT_def dest!: as_fat_length)

lemma entries_per_block_pos: "0 < ENTRIES_PER_BLOCK"
  by (simp add: ENTRIES_PER_BLOCK_def directory_size_def CLUSTER_BLOCK_COUNT_def)

lemma both_views_zero:
  assumes "is_entry_block b" and "is_link_block b"
  shows "block_entries b \<noteq> [] \<and> block_entries b ! 0 = zero_entry"
proof (cases b)
  case (ByteBlock bs)
  then show ?thesis using entries_per_block_pos by simp
next
  case (EntryBlock es)
  with assms(2) have "length es = ENTRIES_PER_BLOCK" "\<forall>e\<in>set es. e = zero_entry"
    by (simp_all add: list_all_iff)
  moreover from this entries_per_block_pos have "es ! 0 \<in> set es" by simp
  ultimately show ?thesis using EntryBlock entries_per_block_pos by auto
next
  case (LinkBlock ls)
  then show ?thesis using entries_per_block_pos by simp
qed

text \<open>
  A cluster that reads as a directory table with a subdirectory entry in slot 0 does not read
  as an allocation table: the two are different clusters of the device.
\<close>

lemma valid_table_is_not_fat:
  assumes "read_table d c = Inr t" and "attribute (t ! 0) = ATTR_SUBDIRECTORY"
    and "read_fat d c' = Inr f"
  shows "cluster_to_lba c \<noteq> cluster_to_lba c'"
proof
  assume "cluster_to_lba c = cluster_to_lba c'"
  then have "read_clusters d c 1 = read_clusters d c' 1"
    by (simp add: read_clusters_def)
  moreover have "read_clusters d c' 1 \<noteq> []"
    by (simp add: read_clusters_def read_blocks_def CLUSTER_BLOCK_COUNT_def)
  ultimately obtain b bs where bs: "read_clusters d c 1 = b # bs" "read_clusters d c' 1 = b # bs"
    by (cases "read_clusters d c' 1") auto
  from assms(1,3) bs have b: "is_entry_block b" "is_link_block b"
    and t: "t = block_entries b @ concat (map block_entries bs)"
    by (auto simp: read_table_def read_fat_def as_table_def as_fat_def split: if_splits)
  from both_views_zero[OF b] t have "t ! 0 = zero_entry"
    by (simp add: nth_append)
  with assms(2) show False
    by (simp add: zero_entry_def ATTR_SUBDIRECTORY_def)
qed

section \<open>A file system that holds a file\<close>

lemma with_file_fat [simp]:
  "fat_table with_file = formatted_map[3 := 4, 4 := FAT32_FAT_END_OF_FILE]"
  by (simp add: with_file_def)

lemma with_file_table [simp]:
  "read_table (storage with_file) ROOT_CLUSTER_NUMBER = Inr (root_table[1 := file1_entry])"
  by (simp add: with_file_def read_table_def read_clusters_write_other read_clusters_write_same
      as_table_table_blocks)

lemma with_file_fat_on_disk [simp]:
  "read_fat (storage with_file) FAT_CLUSTER_NUMBER = Inr (fat_table with_file)"
  by (simp add: with_file_def read_fat_def read_clusters_write_same as_fat_fat_blocks)

lemma with_file_slot0:
  "(root_table[1 := file1_entry]) ! 0 = root_table ! 0"
  by simp

lemma with_file_slot1 [simp]:
  "(root_table[Suc 0 := e]) ! Suc 0 = e"
  by (simp add: directory_size_def)

lemma with_file_match:
  "req_name r = map of_char ''FILE1'' @ [0, 0, 0] \<Longrightarrow> req_ext r = map of_char ''TXT'' \<Longrightarrow>
   find_entry (root_table[1 := file1_entry]) r 0 = Some 1"
  by (rule find_entry_first)
     (auto simp: directory_size_def is_match_def root_table_0 file1_entry_def)

lemma file1_entry_cluster [simp]: "entry_cluster file1_entry = 3"
  by (simp add: entry_cluster_def file1_entry_def zero_entry_def)

lemma with_file_chain: "chain_in (fat_table with_file) 3 [3, 4]"
  by (simp add: CLUSTER_MAP_SIZE_def FAT32_FAT_END_OF_FILE_def)

section \<open>Writing into the fresh file system\<close>

lemma formatted_map_nth:
  "formatted_map ! 0 = CLUSTER_0_VALUE" "formatted_map ! Suc 0 = CLUSTER_1_VALUE"
  "formatted_map ! 2 = FAT32_FAT_END_OF_FILE"
  "3 \<le> i \<Longrightarrow> i < CLUSTER_MAP_SIZE \<Longrightarrow> formatted_map ! i = FAT32_FAT_EMPTY_ENTRY"
  by (auto simp: formatted_map_def nth_append nth_Cons' CLUSTER_MAP_SIZE_def)

lemma sentinels_distinct:
  "CLUSTER_0_VALUE \<noteq> FAT32_FAT_EMPTY_ENTRY" "CLUSTER_1_VALUE \<noteq> FAT32_FAT_EMPTY_ENTRY"
  "FAT32_FAT_END_OF_FILE \<noteq> FAT32_FAT_EMPTY_ENTRY"
  by (simp_all add: CLUSTER_0_VALUE_def CLUSTER_1_VALUE_def FAT32_FAT_END_OF_FILE_def
      FAT32_FAT_EMPTY_ENTRY_def)

lemma free_from_3: "free_clusters_from 3 formatted_map = [3 ..< CLUSTER_MAP_SIZE]"
  unfolding free_clusters_from_def
  by (rule filter_True) (simp add: formatted_map_nth)

lemma free_from_2: "free_clusters_from 2 formatted_map = [3 ..< CLUSTER_MAP_SIZE]"
proof -
  have "[2 ..< CLUSTER_MAP_SIZE] = 2 # [Suc 2 ..< CLUSTER_MAP_SIZE]"
    by (rule upt_conv_Cons) (simp add: CLUSTER_MAP_SIZE_def)
  moreover have "Suc 2 = 3" by simp
  ultimately have "[2 ..< CLUSTER_MAP_SIZE] = 2 # [3 ..< CLUSTER_MAP_SIZE]" by simp
  then have "free_clusters_from 2 formatted_map = free_clusters_from 3 formatted_map"
    by (simp add: free_clusters_from_def formatted_map_nth sentinels_distinct)
  then show ?thesis by (simp add: free_from_3)
qed

lemma free_from_0: "free_clusters_from 0 formatted_map = [3 ..< CLUSTER_MAP_SIZE]"
proof -
  have "[0 ..< CLUSTER_MAP_SIZE] = 0 # [Suc 0 ..< CLUSTER_MAP_SIZE]"
    "[Suc 0 ..< CLUSTER_MAP_SIZE] = Suc 0 # [Suc (Suc 0) ..< CLUSTER_MAP_SIZE]"
    "[Suc (Suc 0) ..< CLUSTER_MAP_SIZE] = Suc (Suc 0) # [Suc (Suc (Suc 0)) ..< CLUSTER_MAP_SIZE]"
    by (rule upt_conv_Cons, simp add: CLUSTER_MAP_SIZE_def)+
  moreover have "Suc (Suc 0) = 2" "Suc (Suc (Suc 0)) = 3" by simp_all
  ultimately have "[0 ..< CLUSTER_MAP_SIZE] = 0 # Suc 0 # 2 # [3 ..< CLUSTER_MAP_SIZE]"
    by simp
  then have "free_clusters_from 0 formatted_map = free_clusters_from 3 formatted_map"
    by (simp add: free_clusters_from_def formatted_map_nth sentinels_distinct)
  then show ?thesis by (simp add: free_from_3)
qed

lemma upt_split: "i \<le> j \<Longrightarrow> j \<le> k \<Longrightarrow> [i ..< k] = [i ..< j] @ [j ..< k]"
  using upt_add_eq_append[of i j "k - j"] by simp

lemma upt_3: "[3 ..< CLUSTER_MAP_SIZE] = 3 # [4 ..< CLUSTER_MAP_SIZE]"
proof -
  have "[3 ..< CLUSTER_MAP_SIZE] = 3 # [Suc 3 ..< CLUSTER_MAP_SIZE]"
    by (rule upt_conv_Cons) (simp add: CLUSTER_MAP_SIZE_def)
  moreover have "Suc 3 = 4" by simp
  ultimately show ?thesis by simp
qed

lemma collect_formatted_0: "collect_empty_clusters formatted_map ! 0 = 3"
  by (simp add: collect_empty_clusters_def free_from_0 Let_def upt_3)

lemma ceil_div_5: "ceil_div 5 (int CLUSTER_SIZE) = 1"
  by (simp add: ceil_div_def CLUSTER_SIZE_def BLOCK_SIZE_def CLUSTER_BLOCK_COUNT_def
      signed_divide_int_def signed_modulo_int_def)

lemma chain_one:
  "chain_clusters 0 (Suc 0) ecs b m d =
     (m[ecs ! 0 := FAT32_FAT_END_OF_FILE], write_clusters d (buf_blocks b 0) (of_nat (ecs ! 0)) 1)"
  by (simp add: chain_clusters.simps[where i = 0] chain_clusters.simps[where i = "Suc 0"] Let_def)

lemma write_one_cluster_formatted:
  assumes "parent_cluster_number r = ROOT_CLUSTER_NUMBER"
    and "find_entry root_table r 0 = None"
    and "buffer_size r \<noteq> 0"
    and "ceil_div (sint (buffer_size r)) (int CLUSTER_SIZE) = 1"
  shows "write_fat32 formatted r =
     Inr (0, formatted\<lparr>dir_table_buf := root_table,
        overrun := Some (zero_entry\<lparr>filesize := buffer_size r,
          user_attribute := UATTR_NOT_EMPTY, name := take 8 (req_name r),
          ext := take 3 (req_ext r), cluster_low := 3, cluster_high := 0\<rparr>),
        fat_table := formatted_map[3 := FAT32_FAT_END_OF_FILE],
        storage := write_clusters
          (write_clusters
             (write_clusters (storage formatted) (buf_blocks (buf r) 0) 3 1)
             (table_blocks root_table) ROOT_CLUSTER_NUMBER 1)
          (fat_blocks (formatted_map[3 := FAT32_FAT_END_OF_FILE])) FAT_CLUSTER_NUMBER 1\<rparr>)"
proof -
  have len: "length [3 ..< CLUSTER_MAP_SIZE] = 509"
    by (simp add: CLUSTER_MAP_SIZE_def)
  show ?thesis
    unfolding write_fat32_def
    by (simp add: assms root_table_0 free_from_2 len Let_def
        chain_one collect_formatted_0 store_entry_def upt_3)
qed

lemma write_file1:
  "write_fat32 formatted file1_request = Inr (0, after_file1)"
  "after_file1 = formatted\<lparr>dir_table_buf := root_table, overrun := Some file1_new_entry,
        fat_table := formatted_map[3 := FAT32_FAT_END_OF_FILE],
        storage := write_clusters
          (write_clusters
             (write_clusters (storage formatted) (buf_blocks (buf file1_request) 0) 3 1)
             (table_blocks root_table) ROOT_CLUSTER_NUMBER 1)
          (fat_blocks (formatted_map[3 := FAT32_FAT_END_OF_FILE])) FAT_CLUSTER_NUMBER 1\<rparr>"
proof -
  have p: "parent_cluster_number file1_request = ROOT_CLUSTER_NUMBER"
    "buffer_size file1_request \<noteq> 0"
    "ceil_div (sint (buffer_size file1_request)) (int CLUSTER_SIZE) = 1"
    by (simp_all add: file1_request_def ceil_div_5)
  note w = write_one_cluster_formatted[OF p(1) root_no_file1 p(2,3)]
  show "after_file1 = formatted\<lparr>dir_table_buf := root_table, overrun := Some file1_new_entry,
        fat_table := formatted_map[3 := FAT32_FAT_END_OF_FILE],
        storage := write_clusters
          (write_clusters
             (write_clusters (storage formatted) (buf_blocks (buf file1_request) 0) 3 1)
             (table_blocks root_table) ROOT_CLUSTER_NUMBER 1)
          (fat_blocks (formatted_map[3 := FAT32_FAT_END_OF_FILE])) FAT_CLUSTER_NUMBER 1\<rparr>"
    unfolding after_file1_def w by (simp add: file1_new_entry_def file1_request_def)
  then show "write_fat32 formatted file1_request = Inr (0, after_file1)"
    unfolding w by (simp add: file1_new_entry_def file1_request_def)
qed

lemma after_file1_root:
  "read_table (storage after_file1) ROOT_CLUSTER_NUMBER = Inr root_table"
  by (simp add: write_file1(2) read_table_def read_clusters_write_other read_clusters_write_same
      as_table_table_blocks)


lemma ceil_div_huge: "ceil_div (- 1) (int CLUSTER_SIZE) = 1"
  by (simp add: ceil_div_def CLUSTER_SIZE_def BLOCK_SIZE_def CLUSTER_BLOCK_COUNT_def
      signed_divide_int_def signed_modulo_int_def)

section \<open>Creating directories in the fresh file system\<close>

lemma ceil_div_0 [simp]: "ceil_div 0 b = 0"
  by (simp add: ceil_div_def signed_divide_int_def signed_modulo_int_def)

lemma mkdir_result:
  assumes "read_table (storage s) (parent_cluster_number r) = Inr t"
    and "attribute (t ! 0) = ATTR_SUBDIRECTORY"
    and "find_entry t r 0 = None"
    and "buffer_size r = 0"
    and "e = (case free_clusters_from 2 (fat_table s) of [] \<Rightarrow> 0 | i # _ \<Rightarrow> i)"
  shows "write_fat32 s r =
     Inr (0, s\<lparr>dir_table_buf := t,
        overrun := Some (zero_entry\<lparr>filesize := 0, user_attribute := UATTR_NOT_EMPTY,
          name := take 8 (req_name r), ext := take 3 (req_ext r),
          cluster_low := ucast ((of_nat e :: u32) AND 0xFFFF),
          cluster_high := ucast (drop_bit 16 (of_nat e :: u32) AND 0xFFFF),
          attribute := ATTR_SUBDIRECTORY\<rparr>),
        fat_table := (fat_table s)[e := FAT32_FAT_END_OF_FILE],
        storage := write_clusters
          (write_clusters
             (write_clusters (storage s)
                (table_blocks (init_directory_table zero_table (req_name r)
                   (parent_cluster_number r))) (of_nat e) 1)
             (table_blocks t) (parent_cluster_number r) 1)
          (fat_blocks ((fat_table s)[e := FAT32_FAT_END_OF_FILE])) FAT_CLUSTER_NUMBER 1\<rparr>)"
  unfolding write_fat32_def
  by (simp add: assms(1-4) assms(5)[symmetric] Let_def store_entry_def)

lemma length_dirs_map [simp]: "k \<le> CLUSTER_MAP_SIZE - 3 \<Longrightarrow> length (dirs_map k) = CLUSTER_MAP_SIZE"
  by (simp add: dirs_map_def CLUSTER_MAP_SIZE_def)

lemma dirs_map_nth:
  "dirs_map k ! 0 = CLUSTER_0_VALUE"
  "dirs_map k ! Suc 0 = CLUSTER_1_VALUE"
  "2 \<le> i \<Longrightarrow> i < k + 3 \<Longrightarrow> dirs_map k ! i = FAT32_FAT_END_OF_FILE"
  "k + 3 \<le> i \<Longrightarrow> i < CLUSTER_MAP_SIZE \<Longrightarrow> dirs_map k ! i = FAT32_FAT_EMPTY_ENTRY"
  by (auto simp: dirs_map_def nth_append nth_Cons')

lemma dirs_map_0: "dirs_map 0 = formatted_map"
  by (simp add: dirs_map_def formatted_map_def)

lemma dirs_map_Suc:
  assumes "k < CLUSTER_MAP_SIZE - 3"
  shows "(dirs_map k)[k + 3 := FAT32_FAT_END_OF_FILE] = dirs_map (Suc k)"
proof (rule nth_equalityI)
  show "length ((dirs_map k)[k + 3 := FAT32_FAT_END_OF_FILE]) = length (dirs_map (Suc k))"
    using assms by simp
next
  fix i assume "i < length ((dirs_map k)[k + 3 := FAT32_FAT_END_OF_FILE])"
  then have i: "i < CLUSTER_MAP_SIZE" using assms by simp
  consider "i = 0" | "i = Suc 0" | "2 \<le> i" "i < k + 3" | "i = k + 3" | "k + 4 \<le> i"
    by linarith
  then show "(dirs_map k)[k + 3 := FAT32_FAT_END_OF_FILE] ! i = dirs_map (Suc k) ! i"
    using i assms by cases (simp_all add: dirs_map_nth)
qed

lemma free_from_2_dirs:
  assumes "k \<le> CLUSTER_MAP_SIZE - 3"
  shows "free_clusters_from 2 (dirs_map k) = [k + 3 ..< CLUSTER_MAP_SIZE]"
proof -
  have "[2 ..< CLUSTER_MAP_SIZE] = [2 ..< k + 3] @ [k + 3 ..< CLUSTER_MAP_SIZE]"
    using assms by (intro upt_split) (simp_all add: CLUSTER_MAP_SIZE_def)
  moreover have "filter (\<lambda>i. dirs_map k ! i = FAT32_FAT_EMPTY_ENTRY) [2 ..< k + 3] = []"
    by (intro filter_False) (simp add: dirs_map_nth sentinels_distinct)
  moreover have "filter (\<lambda>i. dirs_map k ! i = FAT32_FAT_EMPTY_ENTRY) [k + 3 ..< CLUSTER_MAP_SIZE] =
      [k + 3 ..< CLUSTER_MAP_SIZE]"
    by (intro filter_True) (simp add: dirs_map_nth)
  ultimately show ?thesis by (simp add: free_clusters_from_def)
qed

lemma free_from_0_dirs:
  assumes "k \<le> CLUSTER_MAP_SIZE - 3"
  shows "free_clusters_from 0 (dirs_map k) = [k + 3 ..< CLUSTER_MAP_SIZE]"
proof -
  have "[0 ..< CLUSTER_MAP_SIZE] = [0 ..< 2] @ [2 ..< CLUSTER_MAP_SIZE]"
    by (intro upt_split) (simp_all add: CLUSTER_MAP_SIZE_def)
  moreover have "dirs_map k ! i \<noteq> FAT32_FAT_EMPTY_ENTRY" if "i < 2" for i
  proof -
    from that consider "i = 0" | "i = Suc 0" by linarith
    then show ?thesis by cases (simp_all add: dirs_map_nth sentinels_distinct)
  qed
  then have "filter (\<lambda>i. dirs_map k ! i = FAT32_FAT_EMPTY_ENTRY) [0 ..< 2] = []"
    by (intro filter_False) simp
  ultimately show ?thesis
    using free_from_2_dirs[OF assms] by (simp add: free_clusters_from_def)
qed

lemma root_no_dir1: "find_entry root_table mkdir_request 0 = None"
proof -
  have "\<not> is_match (root_table ! j) mkdir_request" if "j < directory_size" for j
  proof (cases "j = 0")
    case True
    then show ?thesis by (simp add: is_match_def root_table_0 mkdir_request_def)
  next
    case False
    with that have "root_table ! j = zero_entry" by (simp add: root_table_rest)
    then show ?thesis by (simp add: is_match_def zero_entry_def mkdir_request_def replicate_8)
  qed
  then show ?thesis by (simp add: find_entry_None)
qed

lemma formatted_boot: "storage formatted 0 = ByteBlock fs_signature"
proof -
  have "read_blocks (storage formatted) BOOT_SECTOR (Suc 0) = [ByteBlock fs_signature]"
    by (simp add: formatted_def create_fat32_storage read_boot_write_clusters
        read_write_blocks_same)
  then show ?thesis by (simp add: read_blocks_def BOOT_SECTOR_def)
qed

text \<open>What the file system looks like after \<open>k\<close> directories were created.\<close>

lemma mkdir_repeated:
  "k \<le> CLUSTER_MAP_SIZE - 3 \<Longrightarrow>
   \<exists>s. write_repeatedly k formatted mkdir_request = Inr (0, s) \<and>
       fat_table s = dirs_map k \<and>
       read_table (storage s) ROOT_CLUSTER_NUMBER = Inr root_table \<and>
       storage s 0 = ByteBlock fs_signature"
proof (induction k)
  case 0
  then show ?case by (simp add: dirs_map_0 formatted_boot)
next
  case (Suc k)
  then obtain s where s: "write_repeatedly k formatted mkdir_request = Inr (0, s)"
    "fat_table s = dirs_map k" "read_table (storage s) ROOT_CLUSTER_NUMBER = Inr root_table"
    "storage s 0 = ByteBlock fs_signature"
    by auto
  have k: "k < CLUSTER_MAP_SIZE - 3" using Suc.prems by simp
  have p: "parent_cluster_number mkdir_request = ROOT_CLUSTER_NUMBER"
    "buffer_size mkdir_request = 0"
    by (simp_all add: mkdir_request_def)
  have "[k + 3 ..< CLUSTER_MAP_SIZE] = (k + 3) # [Suc (k + 3) ..< CLUSTER_MAP_SIZE]"
    using k by (intro upt_conv_Cons) simp
  then have e: "k + 3 = (case free_clusters_from 2 (fat_table s) of [] \<Rightarrow> 0 | i # _ \<Rightarrow> i)"
    using k by (simp add: s(2) free_from_2_dirs)
  note w = mkdir_result[of s mkdir_request root_table "k + 3", unfolded p, OF s(3) root_table_0(1) root_no_dir1 refl e]
  let ?s = "snd (projr (write_fat32 s mkdir_request))"
  have lba: "cluster_to_lba (of_nat (k + 3)) = 4 * (k + 3)"
    using k by (intro cluster_to_lba_small) (simp add: CLUSTER_MAP_SIZE_def)
  have 1: "write_repeatedly (Suc k) formatted mkdir_request = Inr (0, ?s)"
    by (simp add: s(1) w)
  have 2: "fat_table ?s = dirs_map (Suc k)"
    using dirs_map_Suc[OF k] by (simp add: w s(2))
  have 3: "read_table (storage ?s) ROOT_CLUSTER_NUMBER = Inr root_table"
    by (simp add: w read_table_def read_clusters_write_other read_clusters_write_same
        as_table_table_blocks)
  have 4: "storage ?s 0 = ByteBlock fs_signature"
    using s(4) lba
    by (simp add: w write_clusters_def write_blocks_def)
  from 1 2 3 4 show ?case by blast
qed

section \<open>What a successful write does\<close>

lemma length_fs_signature: "length fs_signature = BLOCK_SIZE"
  by (simp add: fs_signature_def BLOCK_SIZE_def)

lemma write_success_shape:
  assumes "write_fat32 s r = Inr (0, s')"
    and "read_table (storage s) (parent_cluster_number r) = Inr t"
  shows "attribute (t ! 0) = ATTR_SUBDIRECTORY \<and> find_entry t r 0 = None \<and>
     dir_table_buf s' = t \<and> overrun s' \<noteq> None \<and>
     (\<exists>d. storage s' =
        write_clusters (write_clusters d (table_blocks t) (parent_cluster_number r) 1)
          (fat_blocks (fat_table s')) FAT_CLUSTER_NUMBER 1)"
  using assms
  by (auto simp: write_fat32_def Let_def store_entry_def split: if_splits prod.splits)

text \<open>
  Whatever the state and the request: after a \<^verbatim>\<open>write\<close> that returned 0 the parent's cluster
  holds the directory table as it was read, and \<^verbatim>\<open>read\<close> with the same request answers 3
  (the parent's cluster being another one than the allocation table's).
\<close>

lemma write_leaves_directory:
  assumes "write_fat32 s r = Inr (0, s')"
    and "read_table (storage s) (parent_cluster_number r) = Inr t"
    and "cluster_to_lba (parent_cluster_number r) \<noteq> cluster_to_lba FAT_CLUSTER_NUMBER"
  shows "read_table (storage s') (parent_cluster_number r) = Inr t \<and>
     read s' r = Some (Inr (3, s', []))"
proof -
  from write_success_shape[OF assms(1,2)] obtain d where
    w: "attribute (t ! 0) = ATTR_SUBDIRECTORY" "find_entry t r 0 = None" "dir_table_buf s' = t"
    "storage s' = write_clusters (write_clusters d (table_blocks t) (parent_cluster_number r) 1)
          (fat_blocks (fat_table s')) FAT_CLUSTER_NUMBER 1"
    by blast
  have "length t = directory_size" using assms(2) by (rule read_table_length)
  then have rt: "read_table (storage s') (parent_cluster_number r) = Inr t"
    using assms(3)
    by (simp add: w(4) read_table_def read_clusters_write_other[OF not_sym]
        read_clusters_write_same as_table_table_blocks)
  have "s'\<lparr>dir_table_buf := t\<rparr> = s'" using w(3) by simp
  then have "read s' r = Some (Inr (3, s', []))"
    by (simp add: read_def rt w(1,2))
  with rt show ?thesis by simp
qed

lemma ceil_int:
  fixes a b :: int
  assumes "0 \<le> a" "0 < b"
  shows "(a + b - 1) div b = a div b + (if a mod b \<noteq> 0 then 1 else 0)"
proof -
  define q r where "q = a div b" and "r = a mod b"
  have a: "a = r + q * b" by (simp add: q_def r_def)
  have r: "0 \<le> r" "r < b" using assms(2) by (simp_all add: r_def)
  have b0: "b \<noteq> 0" using assms(2) by simp
  show ?thesis
  proof (cases "r = 0")
    case True
    have "a + b - 1 = (b - 1) + q * b" using a True by simp
    then have "(a + b - 1) div b = ((b - 1) + q * b) div b" by (rule arg_cong)
    also have "\<dots> = q + (b - 1) div b"
      by (rule div_mult_self1[OF b0])
    also have "(b - 1) div b = 0" using assms(2) by simp
    finally show ?thesis using True by (simp add: q_def r_def)
  next
    case False
    have "a + b - 1 = (r - 1) + (q + 1) * b" using a by (simp add: algebra_simps)
    then have "(a + b - 1) div b = ((r - 1) + (q + 1) * b) div b" by (rule arg_cong)
    also have "\<dots> = q + 1 + (r - 1) div b"
      by (rule div_mult_self1[OF b0])
    also have "(r - 1) div b = 0" using r False by simp
    finally show ?thesis using False by (simp add: q_def r_def)
  qed
qed

lemma ceil_div_pos:
  assumes "0 \<le> a" "0 < b"
  shows "ceil_div a b = (a + b - 1) div b"
proof -
  have "a sdiv b = a div b" "a smod b = a mod b"
    using assms by (simp_all add: signed_divide_int_def signed_modulo_int_def sgn_if)
  then show ?thesis
    using ceil_int[OF assms] by (simp add: ceil_div_def)
qed

lemma sint_nonneg:
  assumes "0 \<le> sint (n :: u32)"
  shows "sint n = int (unat n)"
proof -
  have u: "uint n < 2 ^ 32" using uint_bounded[of n] by simp
  have "sint n = take_bit 32 (uint n) - 2 ^ 32 * of_bool (bit (uint n) 31)"
    using signed_take_bit_eq_take_bit_minus[of 31 "uint n"] by (simp add: sint_uint)
  also have "take_bit 32 (uint n) = uint n"
    using u by (simp add: take_bit_int_eq_self)
  finally have s: "sint n = uint n - 2 ^ 32 * of_bool (bit (uint n) 31)" .
  have "\<not> bit (uint n) 31"
  proof
    assume "bit (uint n) 31"
    with s have "sint n = uint n - 2 ^ 32" by simp
    with u assms show False by simp
  qed
  with s show ?thesis by simp
qed

lemma cluster_count_small:
  assumes "0 \<le> sint (n :: u32)"
  shows "unat (word_of_int (ceil_div (sint n) (int CLUSTER_SIZE)) :: u32) =
     (unat n + CLUSTER_SIZE - 1) div CLUSTER_SIZE"
proof -
  have cs: "CLUSTER_SIZE = 2048"
    by (simp add: CLUSTER_SIZE_def BLOCK_SIZE_def CLUSTER_BLOCK_COUNT_def)
  have sn: "sint n = int (unat n)"
    using assms by (rule sint_nonneg)
  have "ceil_div (sint n) 2048 = (int (unat n) + 2048 - 1) div 2048"
    by (simp add: ceil_div_pos sn)
  also have "\<dots> = int ((unat n + 2048 - 1) div 2048)"
    by (simp add: zdiv_int)
  finally have c: "ceil_div (sint n) 2048 = int ((unat n + 2048 - 1) div 2048)" .
  have "unat n < 2 ^ 32" using unsigned_less[of n] by simp
  then have "(unat n + 2048 - 1) div 2048 < 2 ^ 32" by simp
  then have "unat (word_of_nat ((unat n + 2048 - 1) div 2048) :: u32) = (unat n + 2048 - 1) div 2048"
    by (simp add: unat_of_nat)
  then have "unat (word_of_int (ceil_div (sint n) 2048) :: u32) = (unat n + 2048 - 1) div 2048"
    by (simp only: c of_int_of_nat_eq)
  then show ?thesis
    by (simp add: cs)
qed

lemma free_clusters_props:
  "distinct (free_clusters_from lo m)"
  "sorted (free_clusters_from lo m)"
  "set (free_clusters_from lo m) =
     {i. lo \<le> i \<and> i < CLUSTER_MAP_SIZE \<and> m ! i = FAT32_FAT_EMPTY_ENTRY}"
  by (auto simp: free_clusters_from_def sorted_wrt_filter)

lemma free_from_2_le_0:
  "length (free_clusters_from 2 m) \<le> length (free_clusters_from 0 m)"
proof -
  have "[0 ..< CLUSTER_MAP_SIZE] = [0 ..< 2] @ [2 ..< CLUSTER_MAP_SIZE]"
    by (intro upt_split) (simp_all add: CLUSTER_MAP_SIZE_def)
  then show ?thesis by (simp add: free_clusters_from_def)
qed

lemma length_free_clusters: "length (free_clusters_from lo m) \<le> CLUSTER_MAP_SIZE"
proof -
  have "length (free_clusters_from lo m) \<le> length [lo ..< CLUSTER_MAP_SIZE]"
    unfolding free_clusters_from_def by (rule length_filter_le)
  then show ?thesis by simp
qed

lemma collect_nth:
  "q < length (free_clusters_from 0 m) \<Longrightarrow>
   collect_empty_clusters m ! q = free_clusters_from 0 m ! q"
  by (simp add: collect_empty_clusters_def Let_def nth_append)


lemma chain_clusters_step:
  "i < n \<Longrightarrow>
   chain_clusters i n ecs b m d =
     chain_clusters (Suc i) n ecs b
       (m[ecs ! i := (if i = n - 1 then FAT32_FAT_END_OF_FILE else of_nat (ecs ! Suc i))])
       (write_clusters d (buf_blocks b i) (of_nat (ecs ! i)) 1)"
  by (subst chain_clusters.simps) (simp add: Let_def)

lemma chain_clusters_done: "\<not> i < n \<Longrightarrow> chain_clusters i n ecs b m d = (m, d)"
  by (subst chain_clusters.simps) simp

lemma length_chain_clusters [simp]:
  "length (fst (chain_clusters i n ecs b m d)) = length m"
proof (induction "n - i" arbitrary: i m d)
  case 0
  then show ?case by (simp add: chain_clusters_done)
next
  case (Suc k)
  then have i: "i < n" and k: "k = n - Suc i" by simp_all
  show ?case
    using Suc.hyps(1)[OF k] by (simp add: chain_clusters_step[OF i])
qed

lemma chain_clusters_other:
  "(\<forall>q. i \<le> q \<and> q < n \<longrightarrow> ecs ! q \<noteq> j) \<Longrightarrow>
   fst (chain_clusters i n ecs b m d) ! j = m ! j"
proof (induction "n - i" arbitrary: i m d)
  case 0
  then show ?case by (simp add: chain_clusters_done)
next
  case (Suc k)
  then have i: "i < n" by simp
  let ?v = "if i = n - 1 then FAT32_FAT_END_OF_FILE else of_nat (ecs ! Suc i)"
  let ?d = "write_clusters d (buf_blocks b i) (of_nat (ecs ! i)) 1"
  have "k = n - Suc i" using Suc.hyps(2) by simp
  moreover have "\<forall>q. Suc i \<le> q \<and> q < n \<longrightarrow> ecs ! q \<noteq> j" using Suc.prems by auto
  ultimately have "fst (chain_clusters (Suc i) n ecs b (m[ecs ! i := ?v]) ?d) ! j =
      m[ecs ! i := ?v] ! j"
    by (rule Suc.hyps(1))
  moreover have "ecs ! i \<noteq> j" using Suc.prems i by auto
  then have "m[ecs ! i := ?v] ! j = m ! j" by simp
  ultimately show ?case by (simp only: chain_clusters_step[OF i])
qed

lemma chain_clusters_link:
  assumes "distinct (take n ecs)" "n \<le> length ecs"
  shows "\<forall>q<n. ecs ! q < length m \<Longrightarrow> i \<le> q \<Longrightarrow> q < n \<Longrightarrow>
     fst (chain_clusters i n ecs b m d) ! (ecs ! q) =
       (if q = n - 1 then FAT32_FAT_END_OF_FILE else of_nat (ecs ! Suc q))"
proof (induction "n - i" arbitrary: i m d)
  case 0
  then show ?case by simp
next
  case (Suc k)
  then have i: "i < n" by simp
  let ?v = "if i = n - 1 then FAT32_FAT_END_OF_FILE else of_nat (ecs ! Suc i)"
  let ?d = "write_clusters d (buf_blocks b i) (of_nat (ecs ! i)) 1"
  have k: "k = n - Suc i" using Suc.hyps(2) by simp
  have neq: "ecs ! a \<noteq> ecs ! c" if "a < n" "c < n" "a \<noteq> c" for a c
  proof -
    have "length (take n ecs) = n" using assms(2) by simp
    with nth_eq_iff_index_eq[OF assms(1), of a c] that
    have "take n ecs ! a \<noteq> take n ecs ! c" by simp
    then show ?thesis using that by simp
  qed
  show ?case
  proof (cases "q = i")
    case True
    have "\<forall>q'. Suc i \<le> q' \<and> q' < n \<longrightarrow> ecs ! q' \<noteq> ecs ! i"
      using neq i by auto
    then have "fst (chain_clusters (Suc i) n ecs b (m[ecs ! i := ?v]) ?d) ! (ecs ! i) =
        m[ecs ! i := ?v] ! (ecs ! i)"
      by (rule chain_clusters_other)
    moreover have "ecs ! i < length m" using Suc.prems(1) i by simp
    then have "m[ecs ! i := ?v] ! (ecs ! i) = ?v" by simp
    ultimately show ?thesis unfolding True by (simp only: chain_clusters_step[OF i])
  next
    case False
    then have q: "Suc i \<le> q" using Suc.prems(2) by simp
    have l: "\<forall>q<n. ecs ! q < length (m[ecs ! i := ?v])" using Suc.prems(1) by simp
    have "fst (chain_clusters (Suc i) n ecs b (m[ecs ! i := ?v]) ?d) ! (ecs ! q) =
        (if q = n - 1 then FAT32_FAT_END_OF_FILE else of_nat (ecs ! Suc q))"
      using k l q Suc.prems(3) by (rule Suc.hyps(1))
    then show ?thesis by (simp only: chain_clusters_step[OF i])
  qed
qed

lemma write_file_success:
  assumes "write_fat32 s r = Inr (0, s')" and "buffer_size r \<noteq> 0"
  shows "\<not> length (free_clusters_from 2 (fat_table s)) <
            unat (word_of_int (ceil_div (sint (buffer_size r)) (int CLUSTER_SIZE)) :: u32) \<and>
         fat_table s' =
           fst (chain_clusters 0
             (unat (word_of_int (ceil_div (sint (buffer_size r)) (int CLUSTER_SIZE)) :: u32))
             (collect_empty_clusters (fat_table s)) (buf r) (fat_table s) (storage s))"
  using assms
  by (auto simp: write_fat32_def Let_def store_entry_def split: sum.splits if_splits prod.splits)

lemma take_collect:
  "k \<le> length (free_clusters_from 0 m) \<Longrightarrow>
   take k (collect_empty_clusters m) = take k (free_clusters_from 0 m)"
  by (simp add: collect_empty_clusters_def Let_def)

lemma length_collect: "length (collect_empty_clusters m) = CLUSTER_MAP_SIZE"
  using length_free_clusters[of 0 m] by (simp add: collect_empty_clusters_def Let_def)

text \<open>
  A successful write of a file whose size is below \<open>2^31\<close> (the \<^verbatim>\<open>int32_t\<close> of \<^verbatim>\<open>ceil_div\<close>
  holds it) claims the \<open>k = ceil(buffer_size / CLUSTER_SIZE)\<close> lowest free clusters: the entry
  of each points to the next, the entry of the last is \<open>EndOfChain\<close>, no other entry changes.
\<close>

lemma file_write_claims_lowest_free:
  assumes "write_fat32 s r = Inr (0, s')" and "buffer_size r \<noteq> 0"
    and "0 \<le> sint (buffer_size r)" and "length (fat_table s) = CLUSTER_MAP_SIZE"
    and "k = (unat (buffer_size r) + CLUSTER_SIZE - 1) div CLUSTER_SIZE"
    and "fs = free_clusters_from 0 (fat_table s)"
  shows "0 < k \<and> k \<le> length fs \<and> sorted fs \<and> distinct fs \<and>
     set fs = {i. i < CLUSTER_MAP_SIZE \<and> fat_table s ! i = FAT32_FAT_EMPTY_ENTRY} \<and>
     (\<forall>q<k. fat_table s' ! (fs ! q) =
        (if q = k - 1 then FAT32_FAT_END_OF_FILE else of_nat (fs ! Suc q))) \<and>
     (\<forall>j<CLUSTER_MAP_SIZE. j \<notin> set (take k fs) \<longrightarrow> fat_table s' ! j = fat_table s ! j)"
proof -
  let ?ecs = "collect_empty_clusters (fat_table s)"
  have cc: "unat (word_of_int (ceil_div (sint (buffer_size r)) (int CLUSTER_SIZE)) :: u32) = k"
    using cluster_count_small[OF assms(3)] assms(5) by simp
  from write_file_success[OF assms(1,2)] cc
  have av: "k \<le> length (free_clusters_from 2 (fat_table s))"
    and m': "fat_table s' = fst (chain_clusters 0 k ?ecs (buf r) (fat_table s) (storage s))"
    by simp_all
  have kfs: "k \<le> length fs"
    using av free_from_2_le_0[of "fat_table s"] assms(6) by simp
  have cs: "CLUSTER_SIZE = 2048"
    by (simp add: CLUSTER_SIZE_def BLOCK_SIZE_def CLUSTER_BLOCK_COUNT_def)
  have "unat (buffer_size r) \<noteq> 0" using assms(2) by (simp add: unat_eq_0)
  then have kpos: "0 < k" using assms(5) by (simp add: cs)
  have props: "sorted fs" "distinct fs"
    "set fs = {i. i < CLUSTER_MAP_SIZE \<and> fat_table s ! i = FAT32_FAT_EMPTY_ENTRY}"
    using free_clusters_props[of 0 "fat_table s"] assms(6) by simp_all
  have tk: "take k ?ecs = take k fs"
    using kfs assms(6) by (simp add: take_collect)
  have nth: "?ecs ! q = fs ! q" if "q < length fs" for q
    using that assms(6) by (simp add: collect_nth)
  have d: "distinct (take k ?ecs)" using props(2) by (simp add: tk)
  have l: "k \<le> length ?ecs" using kfs length_free_clusters[of 0 "fat_table s"] assms(6)
    by (simp add: length_collect)
  have r: "\<forall>q<k. ?ecs ! q < length (fat_table s)"
  proof (intro allI impI)
    fix q assume "q < k"
    then have "q < length fs" using kfs by simp
    then have "fs ! q \<in> set fs" "?ecs ! q = fs ! q" using nth by simp_all
    then show "?ecs ! q < length (fat_table s)" using props(3) assms(4) by simp
  qed
  have link: "fat_table s' ! (fs ! q) =
      (if q = k - 1 then FAT32_FAT_END_OF_FILE else of_nat (fs ! Suc q))" if "q < k" for q
  proof -
    have "q < length fs" using that kfs by simp
    moreover have "Suc q < length fs" if "q \<noteq> k - 1" using that \<open>q < k\<close> kfs by simp
    ultimately show ?thesis
      using chain_clusters_link[OF d l r, of 0 q "buf r" "storage s"] that nth
      by (auto simp: m')
  qed
  have other: "fat_table s' ! j = fat_table s ! j" if "j \<notin> set (take k fs)" for j
  proof -
    have "\<forall>q. 0 \<le> q \<and> q < k \<longrightarrow> ?ecs ! q \<noteq> j"
    proof (intro allI impI)
      fix q assume q: "0 \<le> q \<and> q < k"
      then have "take k fs ! q = fs ! q" "q < length (take k fs)" using kfs by simp_all
      then have "fs ! q \<in> set (take k fs)" by (metis nth_mem)
      moreover have "?ecs ! q = fs ! q" using q kfs nth by simp
      ultimately show "?ecs ! q \<noteq> j" using that by auto
    qed
    then show ?thesis unfolding m' by (rule chain_clusters_other)
  qed
  from kpos kfs props link other show ?thesis by simp
qed

lemma write_success_parent:
  assumes "write_fat32 s r = Inr (0, s')"
  shows "\<exists>t. read_table (storage s) (parent_cluster_number r) = Inr t \<and>
     attribute (t ! 0) = ATTR_SUBDIRECTORY \<and> find_entry t r 0 = None"
  using assms
  by (auto simp: write_fat32_def Let_def split: sum.splits if_splits prod.splits)

text \<open>
  A successful \<^verbatim>\<open>write\<close> of size 0, when one of the clusters \<open>2..CLUSTER_MAP_SIZE - 1\<close> is
  free, claims the lowest of them and no other, and writes a fresh table into it whose slot 0
  is a subdirectory entry that refers to the parent (the parent's cluster being another one).
\<close>

lemma mkdir_claims_lowest_free:
  assumes "write_fat32 s r = Inr (0, s')" and "buffer_size r = 0"
    and "free_clusters_from 2 (fat_table s) \<noteq> []"
    and "e = hd (free_clusters_from 2 (fat_table s))"
    and "cluster_to_lba (parent_cluster_number r) \<noteq> cluster_to_lba (of_nat e)"
  shows "2 \<le> e \<and> e < CLUSTER_MAP_SIZE \<and> fat_table s ! e = FAT32_FAT_EMPTY_ENTRY \<and>
     (\<forall>j. 2 \<le> j \<and> j < e \<longrightarrow> fat_table s ! j \<noteq> FAT32_FAT_EMPTY_ENTRY) \<and>
     fat_table s' = (fat_table s)[e := FAT32_FAT_END_OF_FILE] \<and>
     (\<exists>nt. read_table (storage s') (of_nat e) = Inr nt \<and>
        attribute (nt ! 0) = ATTR_SUBDIRECTORY \<and>
        entry_cluster (nt ! 0) = parent_cluster_number r \<and>
        (\<forall>i. 0 < i \<and> i < directory_size \<longrightarrow> nt ! i = zero_entry))"
proof -
  let ?fs = "free_clusters_from 2 (fat_table s)"
  let ?nt = "init_directory_table zero_table (req_name r) (parent_cluster_number r)"
  from write_success_parent[OF assms(1)] obtain t where
    t: "read_table (storage s) (parent_cluster_number r) = Inr t"
    "attribute (t ! 0) = ATTR_SUBDIRECTORY" "find_entry t r 0 = None"
    by blast
  from assms(3,4) obtain rest where fs: "?fs = e # rest" by (cases ?fs) auto
  then have e': "e = (case ?fs of [] \<Rightarrow> 0 | i # _ \<Rightarrow> i)" by simp
  have "e \<in> set ?fs" using fs by simp
  then have e: "2 \<le> e" "e < CLUSTER_MAP_SIZE" "fat_table s ! e = FAT32_FAT_EMPTY_ENTRY"
    using free_clusters_props(3)[of 2 "fat_table s"] by simp_all
  have low: "fat_table s ! j \<noteq> FAT32_FAT_EMPTY_ENTRY" if "2 \<le> j" "j < e" for j
  proof
    assume "fat_table s ! j = FAT32_FAT_EMPTY_ENTRY"
    then have "j \<in> set ?fs"
      using that e(2) free_clusters_props(3)[of 2 "fat_table s"] by simp
    then have "j = e \<or> j \<in> set rest" using fs by simp
    moreover have "\<forall>x\<in>set rest. e \<le> x"
      using free_clusters_props(2)[of 2 "fat_table s"] fs by simp
    ultimately show False using that(2) by auto
  qed
  note w = mkdir_result[OF t assms(2) e']
  have s': "fat_table s' = (fat_table s)[e := FAT32_FAT_END_OF_FILE]"
    "storage s' = write_clusters
          (write_clusters
             (write_clusters (storage s) (table_blocks ?nt) (of_nat e) 1)
             (table_blocks t) (parent_cluster_number r) 1)
          (fat_blocks ((fat_table s)[e := FAT32_FAT_END_OF_FILE])) FAT_CLUSTER_NUMBER 1"
    using assms(1) unfolding w by auto
  have lba: "cluster_to_lba (of_nat e) = 4 * e"
    using e(2) by (intro cluster_to_lba_small) (simp add: CLUSTER_MAP_SIZE_def)
  then have nf: "cluster_to_lba FAT_CLUSTER_NUMBER \<noteq> cluster_to_lba (of_nat e)"
    using e(1) by simp
  have "read_clusters (storage s') (of_nat e) (Suc 0) = table_blocks ?nt"
    using nf assms(5)
    by (simp add: s'(2) read_clusters_write_other read_clusters_write_same)
  then have rd: "read_table (storage s') (of_nat e) = Inr ?nt"
    by (simp add: read_table_def as_table_table_blocks)
  have nz: "zero_table \<noteq> []" by (simp add: zero_table_def directory_size_def)
  have rest: "?nt ! i = zero_entry" if "0 < i" "i < directory_size" for i
    using that by (simp add: init_directory_table_rest zero_table_def)
  from e low s'(1) rd init_directory_table_slot0[OF nz, of "req_name r" "parent_cluster_number r"] rest
  show ?thesis by auto
qed

section \<open>Parents that are no directory\<close>








text \<open>
  The walk along a chain that starts in cluster 0 of the fresh file system: the entry of
  cluster 0 is the reserved value, which is neither \<open>EndOfChain\<close> nor an index of the table.
\<close>

lemma entry_cluster_zero: "entry_cluster zero_entry = 0"
  by (simp add: entry_cluster_def zero_entry_def)

lemma cluster_0_value_far:
  "CLUSTER_0_VALUE \<noteq> FAT32_FAT_END_OF_FILE" "\<not> unat CLUSTER_0_VALUE < CLUSTER_MAP_SIZE"
  by (simp_all add: CLUSTER_0_VALUE_def FAT32_FAT_END_OF_FILE_def CLUSTER_MAP_SIZE_def)

lemma cluster_map_pos: "0 < CLUSTER_MAP_SIZE"
  by (simp add: CLUSTER_MAP_SIZE_def)

lemma read_chain_from_0: "read_chain formatted_map d 0 [] = Some (Inl OutOfBounds)"
  by (subst read_chain.simps, subst read_chain.simps)
     (simp add: Let_def formatted_map_nth cluster_0_value_far cluster_map_pos)

lemma free_chain_from_0: "free_chain formatted_map 0 = Some (Inl OutOfBounds)"
  by (subst free_chain.simps, subst free_chain.simps)
     (simp add: Let_def formatted_map_nth cluster_0_value_far cluster_map_pos)

lemma root_slot_1: "root_table ! Suc 0 = zero_entry"
  by (simp add: root_table_rest directory_size_def)

lemma root_matches_zero: "find_entry root_table zero_request 0 = Some 1"
  by (rule find_entry_first)
     (auto simp: directory_size_def is_match_def root_table_0 root_table_rest zero_request_def
        zero_entry_def replicate_8)

section \<open>Formatting (claim C9)\<close>

lemma blank_not_signature: "replicate BLOCK_SIZE 0 \<noteq> fs_signature"
proof
  assume "replicate BLOCK_SIZE 0 = fs_signature"
  then have "hd (replicate BLOCK_SIZE (0 :: u8)) = hd fs_signature" by simp
  then show False by (simp add: fs_signature_def BLOCK_SIZE_def)
qed


text \<open>
  Claim C9. On a device whose boot block does not hold the signature, \<^verbatim>\<open>is_empty_storage\<close>
  answers true (the device is not formatted). After \<^verbatim>\<open>create_fat32\<close> it answers false; the
  allocation table, in the cache and as persisted in the cluster \<open>FAT_CLUSTER_NUMBER\<close>, holds
  the two reserved values for the clusters 0 and 1, \<open>EndOfChain\<close> for the root directory's
  cluster and \<open>Free\<close> for every other cluster; and the root cluster holds a directory table
  whose slot 0 is a subdirectory entry that refers to the root cluster itself.
\<close>

theorem format_makes_filesystem:
  assumes "storage s BOOT_SECTOR = ByteBlock b" and "b \<noteq> fs_signature"
    and "length (fat_table s) = CLUSTER_MAP_SIZE"
  shows "is_empty_storage (storage s) = Inr True \<and>
    is_empty_storage (storage (create_fat32 al s)) = Inr False \<and>
    fat_table (create_fat32 al s) = formatted_map \<and>
    read_fat (storage (create_fat32 al s)) FAT_CLUSTER_NUMBER = Inr formatted_map \<and>
    (\<exists>t. read_table (storage (create_fat32 al s)) ROOT_CLUSTER_NUMBER = Inr t \<and>
       length t = directory_size \<and> attribute (t ! 0) = ATTR_SUBDIRECTORY \<and>
       entry_cluster (t ! 0) = ROOT_CLUSTER_NUMBER)"
proof -
  let ?s = "create_fat32 al s"
  let ?root = "init_directory_table zero_table (map of_char ''root'' @ [0] @ al) ROOT_CLUSTER_NUMBER"
  have before: "is_empty_storage (storage s) = Inr True"
    using assms(1,2) by (simp add: is_empty_storage_def read_blocks_def BOOT_SECTOR_def)
  have m: "fat_table ?s = formatted_map"
    using assms(3) by (rule create_fat32_map)
  have "read_blocks (storage ?s) BOOT_SECTOR 1 = [ByteBlock fs_signature]"
    by (simp add: create_fat32_storage read_boot_write_clusters read_write_blocks_same)
  then have after: "is_empty_storage (storage ?s) = Inr False"
    by (simp add: is_empty_storage_def)
  have "read_clusters (storage ?s) FAT_CLUSTER_NUMBER 1 = fat_blocks formatted_map"
    by (simp add: create_fat32_storage read_clusters_write_other read_clusters_write_same m)
  then have fat: "read_fat (storage ?s) FAT_CLUSTER_NUMBER = Inr formatted_map"
    by (simp add: read_fat_def as_fat_fat_blocks)
  have "read_clusters (storage ?s) ROOT_CLUSTER_NUMBER 1 = table_blocks ?root"
    by (simp add: create_fat32_storage read_clusters_write_same)
  then have root: "read_table (storage ?s) ROOT_CLUSTER_NUMBER = Inr ?root"
    by (simp add: read_table_def as_table_table_blocks)
  have "zero_table \<noteq> []"
    by (simp add: zero_table_def directory_size_def)
  then have "attribute (?root ! 0) = ATTR_SUBDIRECTORY \<and> entry_cluster (?root ! 0) = ROOT_CLUSTER_NUMBER"
    using init_directory_table_slot0[of zero_table] by blast
  with before after m fat root show ?thesis by simp
qed


text \<open>The blank device under the zero-initialised driver state is such a device.\<close>

theorem format_makes_filesystem_witness:
  "storage initial_state BOOT_SECTOR = ByteBlock (replicate BLOCK_SIZE 0) \<and>
   replicate BLOCK_SIZE 0 \<noteq> fs_signature \<and>
   length (fat_table initial_state) = CLUSTER_MAP_SIZE \<and>
   is_empty_storage (storage initial_state) = Inr True \<and>
   is_empty_storage (storage (create_fat32 [0, 0, 0] initial_state)) = Inr False \<and>
   read_fat (storage (create_fat32 [0, 0, 0] initial_state)) FAT_CLUSTER_NUMBER = Inr formatted_map"
proof -
  have 1: "storage initial_state BOOT_SECTOR = ByteBlock (replicate BLOCK_SIZE 0)"
    by (simp add: initial_state_def blank_disk_def)
  have 3: "length (fat_table initial_state) = CLUSTER_MAP_SIZE"
    by (simp add: initial_state_def)
  show ?thesis
    using format_makes_filesystem[OF 1 blank_not_signature 3, of "[0, 0, 0]"] 1 3 blank_not_signature
    by simp
qed

section \<open>Rejected calls (claim C7)\<close>



section \<open>The scan and slot 0 (claim C3)\<close>

lemma root_matches_root: "find_entry root_table root_request 0 = Some 0"
  by (rule find_entry_first)
     (simp_all add: directory_size_def is_match_def root_table_0 root_request_def)

lemma root_table_not_occupied: "\<not> has_occupied_slot root_table"
  by (auto simp: has_occupied_slot_def list_ex_iff root_table_rest zero_entry_def UATTR_NOT_EMPTY_def)

lemma free_chain_root:
  "free_chain formatted_map ROOT_CLUSTER_NUMBER =
     Some (Inr (formatted_map[unat ROOT_CLUSTER_NUMBER := FAT32_FAT_EMPTY_ENTRY]))"
  by (subst free_chain.simps)
     (simp add: ROOT_CLUSTER_NUMBER_def CLUSTER_MAP_SIZE_def formatted_map_def)

text \<open>
  Claim C3 says that the scan looks at the slots \<open>1..N\<close> only, so that slot 0, the directory's
  descriptor, is never a match. The loops of the source start at \<open>i = 0\<close>. In the fresh file
  system a request with the name and extension of the root's slot 0 is matched at slot 0 by
  all four operations: lookup descends, \<^verbatim>\<open>read\<close> answers "not a file", \<^verbatim>\<open>write\<close> answers
  "already exists", and \<^verbatim>\<open>delete\<close> deletes the descriptor and returns 0.
\<close>

theorem slot_0_matches_counterexample:
  "find_entry root_table root_request 0 = Some 0 \<and>
   read_directory formatted root_request = Inr (0, formatted\<lparr>dir_table_buf := root_table\<rparr>) \<and>
   read formatted root_request = Some (Inr (1, formatted\<lparr>dir_table_buf := root_table\<rparr>, [])) \<and>
   write_fat32 formatted root_request = Inr (1, formatted\<lparr>dir_table_buf := root_table\<rparr>) \<and>
   map_option (map_sum id fst) (delete formatted root_request) = Some (Inr 0)"
proof -
  have p: "parent_cluster_number root_request = ROOT_CLUSTER_NUMBER"
    by (simp add: root_request_def)
  have 1: "read_directory formatted root_request = Inr (0, formatted\<lparr>dir_table_buf := root_table\<rparr>)"
    by (simp add: read_directory_def p root_table_0 root_matches_root)
  have 2: "read formatted root_request = Some (Inr (1, formatted\<lparr>dir_table_buf := root_table\<rparr>, []))"
    by (simp add: read_def p root_table_0 root_matches_root)
  have 3: "write_fat32 formatted root_request = Inr (1, formatted\<lparr>dir_table_buf := root_table\<rparr>)"
    by (simp add: write_fat32_def p root_table_0 root_matches_root)
  have 4: "map_option (map_sum id fst) (delete formatted root_request) = Some (Inr 0)"
    by (simp add: delete_def p root_table_0 root_matches_root root_table_not_occupied
        free_chain_root Let_def)
  from root_matches_root 1 2 3 4 show ?thesis by simp
qed

text \<open>
  Claim C3, amended. In all four operations the scan goes through the slots \<open>0..N - 1\<close> in
  ascending order and the match is the first slot whose name and extension equal the
  request's, slot 0 included. Under a valid parent, lookup answers 2, \<^verbatim>\<open>read\<close> answers 3 and
  \<^verbatim>\<open>delete\<close> answers 1 (not found) exactly when none of the \<open>N\<close> slots matches, and
  \<^verbatim>\<open>write\<close> answers 1 (already exists) exactly when one of them does.
\<close>

theorem scan_covers_every_slot:
  assumes "read_table (storage s) (parent_cluster_number r) = Inr t"
    and "attribute (t ! 0) = ATTR_SUBDIRECTORY"
  shows "(find_entry t r 0 = Some i \<longleftrightarrow>
            i < directory_size \<and> is_match (t ! i) r \<and> (\<forall>j<i. \<not> is_match (t ! j) r)) \<and>
         ((\<exists>s'. read_directory s r = Inr (2, s')) \<longleftrightarrow> (\<forall>j<directory_size. \<not> is_match (t ! j) r)) \<and>
         ((\<exists>s' out. read s r = Some (Inr (3, s', out))) \<longleftrightarrow>
            (\<forall>j<directory_size. \<not> is_match (t ! j) r)) \<and>
         ((\<exists>s'. write_fat32 s r = Inr (1, s')) \<longleftrightarrow> (\<exists>j<directory_size. is_match (t ! j) r)) \<and>
         ((\<exists>s'. delete s r = Some (Inr (1, s'))) \<longleftrightarrow> (\<forall>j<directory_size. \<not> is_match (t ! j) r))"
proof -
  have none: "find_entry t r 0 = None \<longleftrightarrow> (\<forall>j<directory_size. \<not> is_match (t ! j) r)"
    by (simp add: find_entry_None)
  have a: "find_entry t r 0 = Some i \<longleftrightarrow>
      i < directory_size \<and> is_match (t ! i) r \<and> (\<forall>j<i. \<not> is_match (t ! j) r)"
    using find_entry_Some[of t r 0 i] find_entry_first[of 0 i t r] by auto
  have b: "(\<exists>s'. read_directory s r = Inr (2, s')) \<longleftrightarrow> find_entry t r 0 = None"
    using assms by (auto simp: read_directory_def Let_def split: option.splits sum.splits)
  have c: "(\<exists>s' out. read s r = Some (Inr (3, s', out))) \<longleftrightarrow> find_entry t r 0 = None"
    using assms by (auto simp: read_def Let_def split: option.splits sum.splits)
  have d: "(\<exists>s'. write_fat32 s r = Inr (1, s')) \<longleftrightarrow> find_entry t r 0 \<noteq> None"
    using assms by (auto simp: write_fat32_def Let_def split: prod.splits)
  have e: "(\<exists>s'. delete s r = Some (Inr (1, s'))) \<longleftrightarrow> find_entry t r 0 = None"
    using assms by (auto simp: delete_def Let_def split: option.splits sum.splits bool.splits)
  from a b c d e none show ?thesis by auto
qed

text \<open>The root directory of the fresh file system and the request that names the root.\<close>

theorem scan_covers_every_slot_witness:
  "read_table (storage formatted) (parent_cluster_number root_request) = Inr root_table \<and>
   attribute (root_table ! 0) = ATTR_SUBDIRECTORY \<and>
   find_entry root_table root_request 0 = Some 0 \<and>
   (0 < directory_size \<and> is_match (root_table ! 0) root_request) \<and>
   (\<exists>s'. write_fat32 formatted root_request = Inr (1, s'))"
proof -
  have 1: "read_table (storage formatted) (parent_cluster_number root_request) = Inr root_table"
    by (simp add: root_request_def)
  have m: "is_match (root_table ! 0) root_request"
    by (simp add: is_match_def root_table_0 root_request_def)
  have d: "0 < directory_size" by (simp add: directory_size_def)
  from scan_covers_every_slot[OF 1 root_table_0(1), where i = 0] m d 1 root_table_0(1)
  show ?thesis by auto
qed

section \<open>Matching ignores the occupancy flag (claim C10)\<close>

text \<open>
  Claim C10. In every operation and for every request, a slot matches exactly when the first
  eight bytes of its name and the first three of its extension equal the request's; the
  occupancy flag \<open>user_attribute\<close> plays no part: changing it in an entry, or in every entry
  of the table, changes neither the match nor the result of the scan. Under a valid parent the
  scan stops at the first slot with these bytes, whether it is occupied or not. Lookup,
  \<^verbatim>\<open>read\<close> and \<^verbatim>\<open>delete\<close> answer "not found" exactly when no slot has them, \<^verbatim>\<open>write\<close> answers
  "already exists" exactly when one has them, and what lookup, \<^verbatim>\<open>read\<close> and \<^verbatim>\<open>delete\<close> do
  otherwise is what they do with the entry of that first slot: lookup loads the directory it
  names, \<^verbatim>\<open>read\<close> walks its chain, \<^verbatim>\<open>delete\<close> turns it into a tombstone, frees its chain
  and writes the directory and the allocation table back. So for a request whose name and
  extension are all zero bytes, a slot whose name and extension are zero (a slot never used,
  or a tombstone) matches: the scan finds a slot at or before it, none of lookup, \<^verbatim>\<open>read\<close>
  and \<^verbatim>\<open>delete\<close> answers "not found", and \<^verbatim>\<open>write\<close> answers "already exists".
\<close>

theorem match_ignores_occupancy:
  "(is_match e r \<longleftrightarrow>
      take 8 (name e) = take 8 (req_name r) \<and> take 3 (ext e) = take 3 (req_ext r)) \<and>
   is_match (e\<lparr>user_attribute := u\<rparr>) r = is_match e r \<and>
   (read_table (storage s) (parent_cluster_number r) = Inr t \<and>
    attribute (t ! 0) = ATTR_SUBDIRECTORY \<longrightarrow>
      find_entry (map (\<lambda>e. e\<lparr>user_attribute := f e\<rparr>) t) r 0 = find_entry t r 0 \<and>
      (find_entry t r 0 = Some i \<longleftrightarrow>
         i < directory_size \<and> is_match (t ! i) r \<and> (\<forall>k<i. \<not> is_match (t ! k) r)) \<and>
      (read_directory s r = Inr (2, s\<lparr>dir_table_buf := t\<rparr>) \<longleftrightarrow>
         (\<forall>k<directory_size. \<not> is_match (t ! k) r)) \<and>
      (read s r = Some (Inr (3, s\<lparr>dir_table_buf := t\<rparr>, [])) \<longleftrightarrow>
         (\<forall>k<directory_size. \<not> is_match (t ! k) r)) \<and>
      (delete s r = Some (Inr (1, s\<lparr>dir_table_buf := t\<rparr>)) \<longleftrightarrow>
         (\<forall>k<directory_size. \<not> is_match (t ! k) r)) \<and>
      (write_fat32 s r = Inr (1, s\<lparr>dir_table_buf := t\<rparr>) \<longleftrightarrow>
         (\<exists>k<directory_size. is_match (t ! k) r)) \<and>
      (find_entry t r 0 = Some i \<longrightarrow>
         read_directory s r =
           (if attribute (t ! i) \<noteq> ATTR_SUBDIRECTORY then Inr (1, s\<lparr>dir_table_buf := t\<rparr>)
            else case read_table (storage s) (entry_cluster (t ! i)) of
                   Inl x \<Rightarrow> Inl x
                 | Inr t' \<Rightarrow> Inr (0, s\<lparr>dir_table_buf := t'\<rparr>)) \<and>
         read s r =
           (if attribute (t ! i) = ATTR_SUBDIRECTORY
            then Some (Inr (1, s\<lparr>dir_table_buf := t\<rparr>, []))
            else if buffer_size r < filesize (t ! i)
            then Some (Inr (2, s\<lparr>dir_table_buf := t\<rparr>, []))
            else case read_chain (fat_table s) (storage s) (entry_cluster (t ! i)) [] of
                   None \<Rightarrow> None
                 | Some (Inl x) \<Rightarrow> Some (Inl x)
                 | Some (Inr copied) \<Rightarrow> Some (Inr (0, s\<lparr>dir_table_buf := t\<rparr>, copied))) \<and>
         delete s r =
           (case (if attribute (t ! i) = ATTR_SUBDIRECTORY
                  then case read_table (storage s) (entry_cluster (t ! i)) of
                         Inl x \<Rightarrow> Inl x
                       | Inr dir_table \<Rightarrow> Inr (has_occupied_slot dir_table)
                  else Inr False) of
              Inl x \<Rightarrow> Some (Inl x)
            | Inr True \<Rightarrow> Some (Inr (2, s\<lparr>dir_table_buf := t\<rparr>))
            | Inr False \<Rightarrow>
                (case free_chain (fat_table s) (entry_cluster (t ! i)) of
                   None \<Rightarrow> None
                 | Some (Inl x) \<Rightarrow> Some (Inl x)
                 | Some (Inr m) \<Rightarrow>
                     Some (Inr (0, s\<lparr>dir_table_buf := t[i := tombstone (t ! i)], fat_table := m,
                       storage :=
                         write_clusters
                           (write_clusters (storage s) (table_blocks (t[i := tombstone (t ! i)]))
                              (parent_cluster_number r) 1)
                           (fat_blocks m) FAT_CLUSTER_NUMBER 1\<rparr>))))) \<and>
      (take 8 (req_name r) = replicate 8 0 \<and> take 3 (req_ext r) = replicate 3 0 \<longrightarrow>
         is_match (tombstone e) r \<and> is_match zero_entry r \<and>
         (j < directory_size \<and> name (t ! j) = replicate 8 0 \<and> ext (t ! j) = replicate 3 0 \<longrightarrow>
            is_match (t ! j) r \<and>
            (\<exists>i'\<le>j. find_entry t r 0 = Some i') \<and>
            (\<forall>s'. read_directory s r \<noteq> Inr (2, s')) \<and>
            (\<forall>s' out. read s r \<noteq> Some (Inr (3, s', out))) \<and>
            (\<forall>s'. delete s r \<noteq> Some (Inr (1, s'))) \<and>
            write_fat32 s r = Inr (1, s\<lparr>dir_table_buf := t\<rparr>))))"
  (is "?A \<and> ?B \<and> (?P \<longrightarrow> ?C \<and> ?S \<and> ?RD \<and> ?RE \<and> ?DE \<and> ?WR \<and> ?M \<and> ?Z)")
proof -
  have A: ?A by (simp add: is_match_def)
  have B: ?B by simp
  have rest: "?C \<and> ?S \<and> ?RD \<and> ?RE \<and> ?DE \<and> ?WR \<and> ?M \<and> ?Z" if P: ?P
  proof -
    from P have 1: "read_table (storage s) (parent_cluster_number r) = Inr t"
      and 2: "attribute (t ! 0) = ATTR_SUBDIRECTORY" by simp_all
    have len: "directory_size \<le> length t"
      using read_table_length[OF 1] by simp
    have C: ?C by (rule find_entry_occupancy[OF len])
    have S: ?S
    proof
      assume "find_entry t r 0 = Some i"
      from find_entry_Some[OF this]
      show "i < directory_size \<and> is_match (t ! i) r \<and> (\<forall>k<i. \<not> is_match (t ! k) r)" by simp
    next
      assume "i < directory_size \<and> is_match (t ! i) r \<and> (\<forall>k<i. \<not> is_match (t ! k) r)"
      then show "find_entry t r 0 = Some i"
        by (intro find_entry_first) simp_all
    qed
    have N: "find_entry t r 0 = None \<longleftrightarrow> (\<forall>k<directory_size. \<not> is_match (t ! k) r)"
      by (simp add: find_entry_None)
    have N': "find_entry t r 0 \<noteq> None \<longleftrightarrow> (\<exists>k<directory_size. is_match (t ! k) r)"
      by (simp add: N)
    have RD: ?RD
      unfolding N[symmetric] using 1 2
      by (auto simp: read_directory_def Let_def split: option.splits sum.splits)
    have RE: ?RE
      unfolding N[symmetric] using 1 2
      by (auto simp: read_def Let_def split: option.splits sum.splits)
    have DE: ?DE
      unfolding N[symmetric] using 1 2
      by (auto simp: delete_def Let_def split: option.splits sum.splits bool.splits)
    have WR: ?WR
      unfolding N'[symmetric] using 1 2
      by (auto simp: write_fat32_def Let_def split: prod.splits)
    have M: ?M
    proof
      assume i: "find_entry t r 0 = Some i"
      show "read_directory s r =
           (if attribute (t ! i) \<noteq> ATTR_SUBDIRECTORY then Inr (1, s\<lparr>dir_table_buf := t\<rparr>)
            else case read_table (storage s) (entry_cluster (t ! i)) of
                   Inl x \<Rightarrow> Inl x
                 | Inr t' \<Rightarrow> Inr (0, s\<lparr>dir_table_buf := t'\<rparr>)) \<and>
         read s r =
           (if attribute (t ! i) = ATTR_SUBDIRECTORY
            then Some (Inr (1, s\<lparr>dir_table_buf := t\<rparr>, []))
            else if buffer_size r < filesize (t ! i)
            then Some (Inr (2, s\<lparr>dir_table_buf := t\<rparr>, []))
            else case read_chain (fat_table s) (storage s) (entry_cluster (t ! i)) [] of
                   None \<Rightarrow> None
                 | Some (Inl x) \<Rightarrow> Some (Inl x)
                 | Some (Inr copied) \<Rightarrow> Some (Inr (0, s\<lparr>dir_table_buf := t\<rparr>, copied))) \<and>
         delete s r =
           (case (if attribute (t ! i) = ATTR_SUBDIRECTORY
                  then case read_table (storage s) (entry_cluster (t ! i)) of
                         Inl x \<Rightarrow> Inl x
                       | Inr dir_table \<Rightarrow> Inr (has_occupied_slot dir_table)
                  else Inr False) of
              Inl x \<Rightarrow> Some (Inl x)
            | Inr True \<Rightarrow> Some (Inr (2, s\<lparr>dir_table_buf := t\<rparr>))
            | Inr False \<Rightarrow>
                (case free_chain (fat_table s) (entry_cluster (t ! i)) of
                   None \<Rightarrow> None
                 | Some (Inl x) \<Rightarrow> Some (Inl x)
                 | Some (Inr m) \<Rightarrow>
                     Some (Inr (0, s\<lparr>dir_table_buf := t[i := tombstone (t ! i)], fat_table := m,
                       storage :=
                         write_clusters
                           (write_clusters (storage s) (table_blocks (t[i := tombstone (t ! i)]))
                              (parent_cluster_number r) 1)
                           (fat_blocks m) FAT_CLUSTER_NUMBER 1\<rparr>))))"
        using 1 2 i
        by (auto simp: read_directory_def read_def delete_def Let_def
            split: option.splits sum.splits bool.splits)
    qed
    have Z: ?Z
    proof (intro impI conjI)
      assume z: "take 8 (req_name r) = replicate 8 0 \<and> take 3 (req_ext r) = replicate 3 0"
      then show "is_match (tombstone e) r" "is_match zero_entry r"
        by (simp_all add: is_match_def tombstone_def zero_entry_def)
      assume j: "j < directory_size \<and> name (t ! j) = replicate 8 0 \<and> ext (t ! j) = replicate 3 0"
      show m: "is_match (t ! j) r"
        using z j by (simp add: is_match_def)
      then have ex: "\<exists>k<directory_size. is_match (t ! k) r"
        using j by blast
      then have "find_entry t r 0 \<noteq> None" using N' by simp
      then obtain i' where i': "find_entry t r 0 = Some i'" by blast
      have "i' \<le> j"
        using find_entry_Some[OF i'] m by (meson not_le_imp_less zero_le)
      with i' show "\<exists>i'\<le>j. find_entry t r 0 = Some i'" by blast
      show "\<forall>s'. read_directory s r \<noteq> Inr (2, s')"
        using 1 2 i' by (auto simp: read_directory_def Let_def split: sum.splits)
      show "\<forall>s' out. read s r \<noteq> Some (Inr (3, s', out))"
        using 1 2 i' by (auto simp: read_def Let_def split: sum.splits option.splits)
      show "\<forall>s'. delete s r \<noteq> Some (Inr (1, s'))"
        using 1 2 i' by (auto simp: delete_def Let_def split: sum.splits option.splits bool.splits)
      show "write_fat32 s r = Inr (1, s\<lparr>dir_table_buf := t\<rparr>)"
        using WR ex by simp
    qed
    show ?thesis using C S RD RE DE WR M Z by (intro conjI)
  qed
  show ?thesis
    by (rule conjI, rule A, rule conjI, rule B, rule impI, rule rest)
qed

text \<open>
  The fresh root directory and the all-zero request: slot 1 was never used, and it is the
  slot the scan finds. Lookup answers "not a directory", \<^verbatim>\<open>write\<close> answers "already
  exists", and \<^verbatim>\<open>read\<close> and \<^verbatim>\<open>delete\<close> follow the chain of the cluster the empty slot names,
  cluster 0, out of the allocation table. The request for \<^verbatim>\<open>FILE1.TXT\<close>, which no slot
  matches, is answered "not found" by lookup, \<^verbatim>\<open>read\<close> and \<^verbatim>\<open>delete\<close>.
\<close>

theorem match_ignores_occupancy_witness:
  "read_table (storage formatted) (parent_cluster_number zero_request) = Inr root_table \<and>
   attribute (root_table ! 0) = ATTR_SUBDIRECTORY \<and>
   take 8 (req_name zero_request) = replicate 8 0 \<and>
   take 3 (req_ext zero_request) = replicate 3 0 \<and>
   1 < directory_size \<and> name (root_table ! 1) = replicate 8 0 \<and>
   ext (root_table ! 1) = replicate 3 0 \<and>
   user_attribute (root_table ! 1) \<noteq> UATTR_NOT_EMPTY \<and>
   find_entry root_table zero_request 0 = Some 1 \<and>
   read_directory formatted zero_request = Inr (1, formatted\<lparr>dir_table_buf := root_table\<rparr>) \<and>
   read formatted zero_request = Some (Inl OutOfBounds) \<and>
   write_fat32 formatted zero_request = Inr (1, formatted\<lparr>dir_table_buf := root_table\<rparr>) \<and>
   delete formatted zero_request = Some (Inl OutOfBounds) \<and>
   read_table (storage formatted) (parent_cluster_number file1_request) = Inr root_table \<and>
   find_entry root_table file1_request 0 = None \<and>
   read_directory formatted file1_request = Inr (2, formatted\<lparr>dir_table_buf := root_table\<rparr>) \<and>
   read formatted file1_request = Some (Inr (3, formatted\<lparr>dir_table_buf := root_table\<rparr>, [])) \<and>
   delete formatted file1_request = Some (Inr (1, formatted\<lparr>dir_table_buf := root_table\<rparr>)) \<and>
   write_fat32 formatted file1_request \<noteq> Inr (1, formatted\<lparr>dir_table_buf := root_table\<rparr>)"
proof -
  have 1: "read_table (storage formatted) (parent_cluster_number zero_request) = Inr root_table"
    by (simp add: zero_request_def)
  have 3: "take 8 (req_name zero_request) = replicate 8 0"
    and 4: "take 3 (req_ext zero_request) = replicate 3 0"
    and b: "buffer_size zero_request = 0"
    by (simp_all add: zero_request_def)
  have 5: "1 < directory_size" by (simp add: directory_size_def)
  have 6: "name (root_table ! 1) = replicate 8 0" and 7: "ext (root_table ! 1) = replicate 3 0"
    and 8: "user_attribute (root_table ! 1) \<noteq> UATTR_NOT_EMPTY"
    by (simp_all add: root_slot_1 zero_entry_def UATTR_NOT_EMPTY_def ATTR_SUBDIRECTORY_def)
  have f: "read_table (storage formatted) (parent_cluster_number file1_request) = Inr root_table"
    by (simp add: file1_request_def)
  have n: "\<forall>k<directory_size. \<not> is_match (root_table ! k) file1_request"
    using root_no_file1 by (simp add: find_entry_None)
  have zero_slot: "attribute zero_entry \<noteq> ATTR_SUBDIRECTORY" "filesize zero_entry = 0"
    by (simp_all add: zero_entry_def ATTR_SUBDIRECTORY_def)
  note z = match_ignores_occupancy[where s = formatted and r = zero_request and t = root_table
      and i = 1 and j = 1, THEN conjunct2, THEN conjunct2, THEN mp, OF conjI[OF 1 root_table_0(1)]]
  note g = match_ignores_occupancy[where s = formatted and r = file1_request and t = root_table,
      THEN conjunct2, THEN conjunct2, THEN mp, OF conjI[OF f root_table_0(1)]]
  have ex: "\<exists>k<directory_size. is_match (root_table ! k) zero_request"
    using find_entry_Some[OF root_matches_zero] by blast
  note zw = z[THEN conjunct2, THEN conjunct2, THEN conjunct2, THEN conjunct2, THEN conjunct2,
      THEN conjunct1, THEN iffD2, OF ex]
  note zM = z[THEN conjunct2, THEN conjunct2, THEN conjunct2, THEN conjunct2, THEN conjunct2,
      THEN conjunct2, THEN conjunct1, THEN mp, OF root_matches_zero]
  from zM
  have zm: "read_directory formatted zero_request = Inr (1, formatted\<lparr>dir_table_buf := root_table\<rparr>)"
    "read formatted zero_request = Some (Inl OutOfBounds)"
    "delete formatted zero_request = Some (Inl OutOfBounds)"
    by (simp_all add: root_slot_1 zero_slot b entry_cluster_zero read_chain_from_0
        free_chain_from_0)
  from g n
  have gm: "read_directory formatted file1_request = Inr (2, formatted\<lparr>dir_table_buf := root_table\<rparr>)"
    "read formatted file1_request = Some (Inr (3, formatted\<lparr>dir_table_buf := root_table\<rparr>, []))"
    "delete formatted file1_request = Some (Inr (1, formatted\<lparr>dir_table_buf := root_table\<rparr>))"
    "write_fat32 formatted file1_request \<noteq> Inr (1, formatted\<lparr>dir_table_buf := root_table\<rparr>)"
    by simp_all
  from 1 root_table_0(1) 3 4 5 6 7 8 root_matches_zero zm(1,2) zw zm(3) f root_no_file1 gm
  show ?thesis by (intro conjI)
qed

section \<open>Reading a file (claim C6)\<close>

text \<open>
  Claim C6. Let the request match a file entry under a valid parent, with a buffer no smaller
  than the file, and let the entry's chain in the cached allocation table be well formed:
  it leads from the entry's first cluster through the clusters \<open>cs\<close> to \<open>EndOfChain\<close>, and
  \<open>cs\<close> has \<open>ceil(filesize / CLUSTER_SIZE)\<close> clusters. Then \<^verbatim>\<open>read\<close> returns 0 and has copied
  exactly the clusters of \<open>cs\<close>, whole and in chain order, one behind the other from the start
  of the caller's buffer: \<open>ceil(filesize / CLUSTER_SIZE)\<close> clusters of \<open>CLUSTER_BLOCK_COUNT\<close>
  blocks each, the last one in full whatever the file size, and the walk has ended at the
  cluster whose entry is \<open>EndOfChain\<close>.
\<close>

theorem read_copies_whole_chain:
  assumes "read_table (storage s) (parent_cluster_number r) = Inr t"
    and "attribute (t ! 0) = ATTR_SUBDIRECTORY"
    and "find_entry t r 0 = Some i"
    and "attribute (t ! i) \<noteq> ATTR_SUBDIRECTORY"
    and "filesize (t ! i) \<le> buffer_size r"
    and "chain_in (fat_table s) (entry_cluster (t ! i)) cs"
    and "length cs = (unat (filesize (t ! i)) + CLUSTER_SIZE - 1) div CLUSTER_SIZE"
  shows "read s r = Some (Inr (0, s\<lparr>dir_table_buf := t\<rparr>,
             concat (map (\<lambda>c. read_clusters (storage s) c 1) cs))) \<and>
         length (concat (map (\<lambda>c. read_clusters (storage s) c 1) cs)) =
           (unat (filesize (t ! i)) + CLUSTER_SIZE - 1) div CLUSTER_SIZE * CLUSTER_BLOCK_COUNT \<and>
         last cs \<in> set cs \<and> fat_table s ! unat (last cs) = FAT32_FAT_END_OF_FILE"
proof -
  have "read s r = Some (Inr (0, s\<lparr>dir_table_buf := t\<rparr>,
             concat (map (\<lambda>c. read_clusters (storage s) c 1) cs)))"
    using assms(1-5) read_chain_chain[OF assms(6), of "storage s" "[]"]
    by (simp add: read_def Let_def not_less[symmetric])
  moreover have "length (concat (map (\<lambda>c. read_clusters (storage s) c 1) cs)) =
      length cs * CLUSTER_BLOCK_COUNT"
    by (induction cs) (simp_all add: read_clusters_def read_blocks_def)
  moreover have "last cs \<in> set cs \<and> fat_table s ! unat (last cs) = FAT32_FAT_END_OF_FILE"
    using chain_in_last[OF assms(6)] chain_in_hd[OF assms(6)] by simp
  ultimately show ?thesis using assms(7) by simp
qed

text \<open>The file of 3000 bytes in the clusters 3 and 4: two whole clusters, eight blocks.\<close>

theorem read_copies_whole_chain_witness:
  "read with_file file1_read_request =
     Some (Inr (0, with_file\<lparr>dir_table_buf := root_table[1 := file1_entry]\<rparr>,
       read_clusters (storage with_file) 3 1 @ read_clusters (storage with_file) 4 1)) \<and>
   length (read_clusters (storage with_file) 3 1 @ read_clusters (storage with_file) 4 1) = 8 \<and>
   fat_table with_file ! 4 = FAT32_FAT_END_OF_FILE"
proof -
  have p: "parent_cluster_number file1_read_request = ROOT_CLUSTER_NUMBER"
    by (simp add: file1_read_request_def file1_request_def)
  have 1: "read_table (storage with_file) (parent_cluster_number file1_read_request) =
      Inr (root_table[1 := file1_entry])"
    by (simp add: p)
  have 2: "attribute ((root_table[1 := file1_entry]) ! 0) = ATTR_SUBDIRECTORY"
    by (simp add: root_table_0)
  have 3: "find_entry (root_table[1 := file1_entry]) file1_read_request 0 = Some 1"
    by (rule with_file_match) (simp_all add: file1_read_request_def file1_request_def)
  have 4: "attribute ((root_table[1 := file1_entry]) ! 1) \<noteq> ATTR_SUBDIRECTORY"
    by (simp add: file1_entry_def zero_entry_def ATTR_SUBDIRECTORY_def)
  have 5: "filesize ((root_table[1 := file1_entry]) ! 1) \<le> buffer_size file1_read_request"
    by (simp add: file1_entry_def file1_read_request_def)
  have 6: "chain_in (fat_table with_file) (entry_cluster ((root_table[1 := file1_entry]) ! 1)) [3, 4]"
    using with_file_chain by simp
  have 7: "length [3 :: u32, 4] =
      (unat (filesize ((root_table[1 := file1_entry]) ! 1)) + CLUSTER_SIZE - 1) div CLUSTER_SIZE"
    by (simp add: file1_entry_def CLUSTER_SIZE_def BLOCK_SIZE_def
        CLUSTER_BLOCK_COUNT_def)
  from read_copies_whole_chain[OF 1 2 3 4 5 6 7] show ?thesis
    by (simp add: file1_entry_def CLUSTER_SIZE_def BLOCK_SIZE_def
        CLUSTER_BLOCK_COUNT_def)
qed

section \<open>Deleting an entry (claim C8)\<close>

text \<open>
  Claim C8. Let the cached allocation table be the one on the device, and let the request
  match, under a valid parent, a file entry or the entry of a directory with no occupied slot,
  whose chain leads from its first cluster through the clusters \<open>cs\<close> to \<open>EndOfChain\<close>. Then
  \<^verbatim>\<open>delete\<close> returns 0; the matched slot is a tombstone (occupancy flag 0, name and extension
  zero) and no other slot has changed; in the cached allocation table exactly the entries of
  the clusters of \<open>cs\<close> have become \<open>Free\<close>; and the device holds the new directory table in
  the parent's cluster and the new allocation table in the cluster \<open>FAT_CLUSTER_NUMBER\<close>.
\<close>

theorem delete_frees_chain:
  assumes "read_table (storage s) (parent_cluster_number r) = Inr t"
    and "attribute (t ! 0) = ATTR_SUBDIRECTORY"
    and "find_entry t r 0 = Some i"
    and "attribute (t ! i) \<noteq> ATTR_SUBDIRECTORY \<or>
         (\<exists>dt. read_table (storage s) (entry_cluster (t ! i)) = Inr dt \<and> \<not> has_occupied_slot dt)"
    and "chain_in (fat_table s) (entry_cluster (t ! i)) cs"
    and "read_fat (storage s) FAT_CLUSTER_NUMBER = Inr (fat_table s)"
  shows "\<exists>s'. delete s r = Some (Inr (0, s')) \<and>
           dir_table_buf s' = t[i := tombstone (t ! i)] \<and>
           user_attribute (dir_table_buf s' ! i) = 0 \<and>
           name (dir_table_buf s' ! i) = replicate 8 0 \<and>
           ext (dir_table_buf s' ! i) = replicate 3 0 \<and>
           length (fat_table s') = CLUSTER_MAP_SIZE \<and>
           (\<forall>k<CLUSTER_MAP_SIZE. fat_table s' ! k =
              (if k \<in> unat ` set cs then FAT32_FAT_EMPTY_ENTRY else fat_table s ! k)) \<and>
           read_table (storage s') (parent_cluster_number r) = Inr (dir_table_buf s') \<and>
           read_fat (storage s') FAT_CLUSTER_NUMBER = Inr (fat_table s')"
proof -
  let ?t = "t[i := tombstone (t ! i)]"
  let ?m = "freed (fat_table s) cs"
  let ?d = "write_clusters
      (write_clusters (storage s) (table_blocks ?t) (parent_cluster_number r) 1)
      (fat_blocks ?m) FAT_CLUSTER_NUMBER 1"
  let ?s = "s\<lparr>dir_table_buf := ?t, fat_table := ?m, storage := ?d\<rparr>"
  have lt: "length t = directory_size"
    using assms(1) by (rule read_table_length)
  have lm: "length (fat_table s) = CLUSTER_MAP_SIZE"
    using assms(6) by (rule read_fat_length)
  have i: "i < directory_size"
    using find_entry_Some[OF assms(3)] by simp
  have occ: "(if attribute (t ! i) = ATTR_SUBDIRECTORY
         then (case read_table (storage s) (entry_cluster (t ! i)) of
                 Inl f \<Rightarrow> Inl f
               | Inr dir_table \<Rightarrow> Inr (has_occupied_slot dir_table))
         else Inr False) = Inr False"
    using assms(4) by auto
  have del: "delete s r = Some (Inr (0, ?s))"
    unfolding delete_def
    by (simp add: assms(1,2,3) Let_def occ free_chain_chain[OF assms(5)])
  have lba: "cluster_to_lba FAT_CLUSTER_NUMBER \<noteq> cluster_to_lba (parent_cluster_number r)"
    using valid_table_is_not_fat[OF assms(1,2,6)] by simp
  have "read_clusters ?d (parent_cluster_number r) 1 = table_blocks ?t"
    using lba by (simp add: read_clusters_write_other read_clusters_write_same)
  then have tab: "read_table ?d (parent_cluster_number r) = Inr ?t"
    using lt by (simp add: read_table_def as_table_table_blocks)
  have "read_clusters ?d FAT_CLUSTER_NUMBER 1 = fat_blocks ?m"
    by (simp add: read_clusters_write_same)
  then have fat: "read_fat ?d FAT_CLUSTER_NUMBER = Inr ?m"
    using lm by (simp add: read_fat_def as_fat_fat_blocks)
  have slot: "?t ! i = tombstone (t ! i)"
    using i lt by simp
  have cells: "\<forall>k<CLUSTER_MAP_SIZE. ?m ! k =
      (if k \<in> unat ` set cs then FAT32_FAT_EMPTY_ENTRY else fat_table s ! k)"
    using lm by (simp add: nth_freed)
  show ?thesis
    using del tab fat slot cells lm
    by (intro exI[of _ ?s]) (simp add: tombstone_def)
qed

text \<open>Deleting the file of the clusters 3 and 4 frees both and leaves the root's cluster.\<close>

theorem delete_frees_chain_witness:
  "(\<exists>s'. delete with_file file1_request = Some (Inr (0, s')) \<and>
      dir_table_buf s' = root_table[1 := tombstone file1_entry] \<and>
      fat_table s' ! 3 = FAT32_FAT_EMPTY_ENTRY \<and> fat_table s' ! 4 = FAT32_FAT_EMPTY_ENTRY \<and>
      fat_table s' ! 2 = FAT32_FAT_END_OF_FILE \<and>
      read_fat (storage s') FAT_CLUSTER_NUMBER = Inr (fat_table s'))"
proof -
  have p: "parent_cluster_number file1_request = ROOT_CLUSTER_NUMBER"
    by (simp add: file1_request_def)
  have 1: "read_table (storage with_file) (parent_cluster_number file1_request) =
      Inr (root_table[1 := file1_entry])"
    by (simp add: p)
  have 2: "attribute ((root_table[1 := file1_entry]) ! 0) = ATTR_SUBDIRECTORY"
    by (simp add: root_table_0)
  have 3: "find_entry (root_table[1 := file1_entry]) file1_request 0 = Some 1"
    by (rule with_file_match) (simp_all add: file1_request_def)
  have 4: "attribute ((root_table[1 := file1_entry]) ! 1) \<noteq> ATTR_SUBDIRECTORY \<or>
      (\<exists>dt. read_table (storage with_file) (entry_cluster ((root_table[1 := file1_entry]) ! 1)) = Inr dt \<and>
         \<not> has_occupied_slot dt)"
    by (simp add: file1_entry_def zero_entry_def ATTR_SUBDIRECTORY_def)
  have 5: "chain_in (fat_table with_file) (entry_cluster ((root_table[1 := file1_entry]) ! 1)) [3, 4]"
    using with_file_chain by simp
  have u: "(2 :: nat) \<notin> unat ` {3 :: u32, 4}" "(3 :: nat) \<in> unat ` {3 :: u32, 4}"
    "(4 :: nat) \<in> unat ` {3 :: u32, 4}"
    by simp_all
  from delete_frees_chain[OF 1 2 3 4 5 with_file_fat_on_disk]
  obtain s' where s': "delete with_file file1_request = Some (Inr (0, s'))"
    "dir_table_buf s' = (root_table[1 := file1_entry])[1 := tombstone ((root_table[1 := file1_entry]) ! 1)]"
    "\<forall>k<CLUSTER_MAP_SIZE. fat_table s' ! k =
        (if k \<in> unat ` set [3 :: u32, 4] then FAT32_FAT_EMPTY_ENTRY else fat_table with_file ! k)"
    "read_fat (storage s') FAT_CLUSTER_NUMBER = Inr (fat_table s')"
    by blast
  from s'(3) u have "fat_table s' ! 3 = FAT32_FAT_EMPTY_ENTRY"
    "fat_table s' ! 4 = FAT32_FAT_EMPTY_ENTRY" "fat_table s' ! 2 = fat_table with_file ! 2"
    by (simp_all add: CLUSTER_MAP_SIZE_def)
  moreover have "fat_table with_file ! 2 = FAT32_FAT_END_OF_FILE"
    by (simp add: formatted_map_def)
  ultimately show ?thesis using s'(1,2,4) by simp
qed

section \<open>Writing a file and reading it back (claim C1)\<close>

text \<open>
  Claim C1 says that after \<^verbatim>\<open>write\<close> has returned 0 for a payload, \<^verbatim>\<open>read\<close> with the same
  key, the same parent and a large enough buffer returns 0 and yields the payload. In the
  fresh file system \<^verbatim>\<open>write\<close> returns 0 for the five bytes of \<^verbatim>\<open>FILE1.TXT\<close>, and the
  \<^verbatim>\<open>read\<close> that follows, with a buffer of a whole cluster, returns 3 (not found) and copies
  nothing: the entry was stored past the end of the directory table and never reached the
  directory. Lemma \<open>write_leaves_directory\<close> shows the same for every successful \<^verbatim>\<open>write\<close>.
\<close>

theorem written_file_is_not_found:
  "write_fat32 formatted file1_request = Inr (0, after_file1) \<and>
   read after_file1 (file1_request\<lparr>buffer_size := 2048\<rparr>) = Some (Inr (3, after_file1, []))"
proof -
  have "find_entry root_table (file1_request\<lparr>buffer_size := 2048\<rparr>) 0 = None"
    using root_no_file1 by (simp add: find_entry_None is_match_def)
  moreover have "after_file1\<lparr>dir_table_buf := root_table\<rparr> = after_file1"
    by (simp add: write_file1(2))
  ultimately have "read after_file1 (file1_request\<lparr>buffer_size := 2048\<rparr>) =
      Some (Inr (3, after_file1, []))"
    by (simp add: read_def after_file1_root root_table_0
        file1_request_def[THEN arg_cong, of parent_cluster_number])
  with write_file1(1) show ?thesis by simp
qed

section \<open>Where the new entry goes (claim C2)\<close>

text \<open>
  Claim C2 says that a successful \<^verbatim>\<open>write\<close> stores the new entry at a slot index within
  \<open>0..N - 1\<close>, so that the entry is part of the directory cluster that is persisted. The
  source stores it at \<^verbatim>\<open>table[directory_size]\<close>, and \<open>directory_size\<close> is no index of the
  table. In the fresh file system \<^verbatim>\<open>write\<close> returns 0, the entry lies behind the table, the
  table is what it was, and the directory cluster on the device holds the old table, in which
  the new entry does not occur. Lemma \<open>write_success_shape\<close> shows for every successful
  \<^verbatim>\<open>write\<close> that the table is left as it was read.
\<close>

theorem entry_is_stored_past_the_table:
  "write_fat32 formatted file1_request = Inr (0, after_file1) \<and>
   \<not> directory_size < directory_size \<and>
   overrun after_file1 = Some file1_new_entry \<and>
   dir_table_buf after_file1 = root_table \<and>
   read_table (storage after_file1) ROOT_CLUSTER_NUMBER = Inr root_table \<and>
   file1_new_entry \<notin> set root_table"
proof -
  have "e \<noteq> file1_new_entry" if "e \<in> set root_table" for e
  proof -
    from that obtain j where j: "j < directory_size" "e = root_table ! j"
      by (auto simp: in_set_conv_nth)
    show ?thesis
    proof (cases "j = 0")
      case True
      with j have "name e = map of_char ''root'' @ [0, 0, 0, 0]" by (simp add: root_table_0)
      then show ?thesis by (auto simp: file1_new_entry_def)
    next
      case False
      with j have "e = zero_entry" by (simp add: root_table_rest)
      then show ?thesis by (auto simp: file1_new_entry_def zero_entry_def replicate_8)
    qed
  qed
  then have "file1_new_entry \<notin> set root_table" by blast
  moreover have "overrun after_file1 = Some file1_new_entry" "dir_table_buf after_file1 = root_table"
    by (simp_all add: write_file1(2))
  ultimately show ?thesis using write_file1(1) after_file1_root by simp
qed

section \<open>How many clusters a file write claims (claim C5)\<close>

text \<open>
  Claim C5 says that a successful write of \<open>buffer_size > 0\<close> bytes claims the
  \<open>ceil(buffer_size / CLUSTER_SIZE)\<close> lowest free clusters. \<^verbatim>\<open>ceil_div\<close> takes the size as
  \<^verbatim>\<open>int32_t\<close>: for the size \<open>0xFFFFFFFF\<close> it computes with \<open>-1\<close> and answers 1. In the fresh
  file system the write of that size returns 0 and claims cluster 3 and nothing else, where
  \<open>ceil(buffer_size / CLUSTER_SIZE)\<close> is 2097152. For the sizes below \<open>2^31\<close> the claim holds:
  lemma \<open>file_write_claims_lowest_free\<close>.
\<close>

theorem huge_size_claims_one_cluster:
  "(\<exists>s'. write_fat32 formatted huge_request = Inr (0, s') \<and>
      fat_table s' = formatted_map[3 := FAT32_FAT_END_OF_FILE] \<and>
      free_clusters_from 0 (fat_table s') = [4 ..< CLUSTER_MAP_SIZE]) \<and>
   free_clusters_from 0 (fat_table formatted) = [3 ..< CLUSTER_MAP_SIZE] \<and>
   0 < buffer_size huge_request \<and>
   (unat (buffer_size huge_request) + CLUSTER_SIZE - 1) div CLUSTER_SIZE = 2097152"
proof -
  have p: "parent_cluster_number huge_request = ROOT_CLUSTER_NUMBER"
    "buffer_size huge_request \<noteq> 0"
    "ceil_div (sint (buffer_size huge_request)) (int CLUSTER_SIZE) = 1"
    by (simp_all add: huge_request_def file1_request_def ceil_div_huge)
  have n: "find_entry root_table huge_request 0 = None"
    using root_no_file1 by (simp add: find_entry_None is_match_def huge_request_def)
  have f: "free_clusters_from 0 (formatted_map[3 := FAT32_FAT_END_OF_FILE]) = [4 ..< CLUSTER_MAP_SIZE]"
  proof -
    have "[0 ..< CLUSTER_MAP_SIZE] = [0 ..< 4] @ [4 ..< CLUSTER_MAP_SIZE]"
      by (rule upt_split) (simp_all add: CLUSTER_MAP_SIZE_def)
    moreover have "formatted_map[3 := FAT32_FAT_END_OF_FILE] ! i \<noteq> FAT32_FAT_EMPTY_ENTRY"
      if "i < 4" for i
    proof -
      from that consider "i = 0" | "i = Suc 0" | "i = 2" | "i = 3" by linarith
      then show ?thesis
        by cases (simp_all add: formatted_map_nth sentinels_distinct CLUSTER_MAP_SIZE_def)
    qed
    then have "filter (\<lambda>i. formatted_map[3 := FAT32_FAT_END_OF_FILE] ! i = FAT32_FAT_EMPTY_ENTRY) [0 ..< 4] = []"
      by (intro filter_False) simp
    moreover have "filter (\<lambda>i. formatted_map[3 := FAT32_FAT_END_OF_FILE] ! i = FAT32_FAT_EMPTY_ENTRY)
        [4 ..< CLUSTER_MAP_SIZE] = [4 ..< CLUSTER_MAP_SIZE]"
      by (rule filter_True) (simp add: formatted_map_nth)
    ultimately show ?thesis by (simp add: free_clusters_from_def)
  qed
  have "(unat (buffer_size huge_request) + CLUSTER_SIZE - 1) div CLUSTER_SIZE = 2097152"
    by (simp add: huge_request_def CLUSTER_SIZE_def BLOCK_SIZE_def CLUSTER_BLOCK_COUNT_def)
  moreover have "0 < buffer_size huge_request"
    by (simp add: huge_request_def)
  ultimately show ?thesis
    using write_one_cluster_formatted[OF p(1) n p(2,3)] f free_from_0 by simp
qed

section \<open>Creating a directory (claim C4)\<close>

text \<open>
  Claim C4 says that a \<^verbatim>\<open>write\<close> with \<open>buffer_size = 0\<close> that returns 0 has claimed exactly
  one cluster that was \<open>Free\<close> before. The space check of the source compares the free clusters
  with \<open>cluster_count\<close>, which is 0 for a directory, and \<^verbatim>\<open>empty_cluster\<close> stays 0 when the
  search for a free cluster finds none. After 509 directories have been created in the fresh
  file system, each call returning 0, no cluster is \<open>Free\<close>. The next call returns 0 as well:
  it sets the entry of cluster 0, which held the reserved value, to \<open>EndOfChain\<close> and writes
  the new directory table into cluster 0, over the boot block with the signature, so that
  \<^verbatim>\<open>is_empty_storage\<close> answers true from then on. As long as one of the clusters from 2 on
  is \<open>Free\<close> the claim holds: lemma \<open>mkdir_claims_lowest_free\<close>.
\<close>

theorem mkdir_on_full_device_takes_cluster_0:
  "\<exists>s s'. write_repeatedly 509 formatted mkdir_request = Inr (0, s) \<and>
      free_clusters_from 0 (fat_table s) = [] \<and>
      fat_table s ! 0 = CLUSTER_0_VALUE \<and>
      is_empty_storage (storage s) = Inr False \<and>
      write_fat32 s mkdir_request = Inr (0, s') \<and>
      fat_table s' = (fat_table s)[0 := FAT32_FAT_END_OF_FILE] \<and>
      read_table (storage s') 0 =
        Inr (init_directory_table zero_table (req_name mkdir_request) ROOT_CLUSTER_NUMBER) \<and>
      is_empty_storage (storage s') = Inr True"
proof -
  have k: "509 \<le> CLUSTER_MAP_SIZE - 3" by (simp add: CLUSTER_MAP_SIZE_def)
  from mkdir_repeated[OF k] obtain s where
    s: "write_repeatedly 509 formatted mkdir_request = Inr (0, s)"
    "fat_table s = dirs_map 509" "read_table (storage s) ROOT_CLUSTER_NUMBER = Inr root_table"
    "storage s 0 = ByteBlock fs_signature"
    by blast
  have none: "free_clusters_from 2 (fat_table s) = []" "free_clusters_from 0 (fat_table s) = []"
    using free_from_2_dirs[OF k] free_from_0_dirs[OF k]
    by (simp_all add: s(2) CLUSTER_MAP_SIZE_def)
  have p: "parent_cluster_number mkdir_request = ROOT_CLUSTER_NUMBER"
    "buffer_size mkdir_request = 0"
    by (simp_all add: mkdir_request_def)
  have e: "0 = (case free_clusters_from 2 (fat_table s) of [] \<Rightarrow> 0 | i # _ \<Rightarrow> i)"
    by (simp add: none)
  note w = mkdir_result[of s mkdir_request root_table 0, unfolded p, OF s(3) root_table_0(1) root_no_dir1 refl e]
  let ?s = "snd (projr (write_fat32 s mkdir_request))"
  let ?new = "init_directory_table zero_table (req_name mkdir_request) ROOT_CLUSTER_NUMBER"
  have lba00: "cluster_to_lba 0 = 0"
    by (simp add: cluster_to_lba_def)
  then have lba0: "cluster_to_lba 0 = 0" "cluster_to_lba 0 \<noteq> cluster_to_lba ROOT_CLUSTER_NUMBER"
    "cluster_to_lba 0 \<noteq> cluster_to_lba FAT_CLUSTER_NUMBER"
    by simp_all
  have 1: "write_fat32 s mkdir_request = Inr (0, ?s)"
    by (simp add: w)
  have 2: "fat_table ?s = (fat_table s)[0 := FAT32_FAT_END_OF_FILE]"
    by (simp add: w)
  have "read_clusters (storage ?s) 0 (Suc 0) = table_blocks ?new"
    using lba0(2,3)
    by (simp add: w read_clusters_write_other[OF not_sym] read_clusters_write_same)
  then have 3: "read_table (storage ?s) 0 = Inr ?new"
    by (simp add: read_table_def as_table_table_blocks)
  have "storage ?s 0 = table_blocks ?new ! 0"
    by (simp add: w write_clusters_def write_blocks_def lba0(1) CLUSTER_BLOCK_COUNT_def)
  then have "storage ?s 0 = EntryBlock (take ENTRIES_PER_BLOCK ?new)"
    by (simp add: table_blocks_def chunk_def CLUSTER_BLOCK_COUNT_def upt_conv_Cons)
  moreover have "?new ! 1 = zero_entry"
    by (simp add: init_directory_table_rest zero_table_def directory_size_def)
  then have "list_ex (\<lambda>e. e = zero_entry) (take 2 (take ENTRIES_PER_BLOCK ?new))"
    by (auto simp: list_ex_iff in_set_conv_nth ENTRIES_PER_BLOCK_def directory_size_def
        CLUSTER_BLOCK_COUNT_def intro!: exI[of _ 1])
  ultimately have 4: "is_empty_storage (storage ?s) = Inr True"
    by (simp add: is_empty_storage_def read_blocks_def BOOT_SECTOR_def)
  have 5: "is_empty_storage (storage s) = Inr False"
    using s(4) by (simp add: is_empty_storage_def read_blocks_def BOOT_SECTOR_def)
  have 6: "fat_table s ! 0 = CLUSTER_0_VALUE"
    by (simp add: s(2) dirs_map_nth)
  from s(1) none(2) 1 2 3 4 5 6 show ?thesis by blast
qed

end
